theory Spec2Isabelle
  imports Complex_Main
begin

section \<open>Python numbers\<close>

text \<open>
  The functions of \<^verbatim>\<open>notebooks/utils.py\<close> are written without numeric types: they apply
  Python's \<^verbatim>\<open>/\<close>, \<^verbatim>\<open>*\<close>, \<^verbatim>\<open>-\<close> and \<^verbatim>\<open>+\<close> to whatever
  numbers they are given. The model follows Python's numeric tower as far as the code can
  see it: \<^verbatim>\<open>int\<close> (unbounded), \<^verbatim>\<open>float\<close> (IEEE 754 binary64, rounding to nearest,
  ties to even) and \<^verbatim>\<open>fractions.Fraction\<close> (exact rationals); and, since the module works
  on pandas tables, the scalar of a float column, \<^verbatim>\<open>numpy.float64\<close>, whose operators are
  NumPy's.
\<close>

subsection \<open>Exceptions\<close>

text \<open>
  An exception is named by the class an \<^verbatim>\<open>except\<close> clause matches it with; a subclass
  counts as its base class (\<^verbatim>\<open>JSONDecodeError\<close> is a \<^verbatim>\<open>ValueError\<close>).
\<close>

datatype exn =
    AttributeError
  | KeyError
  | ValueError
  | ZeroDivisionError
  | OverflowError
  | TypeError
  | OtherError string

fun bindE :: "exn + 'a \<Rightarrow> ('a \<Rightarrow> exn + 'b) \<Rightarrow> exn + 'b" where
  "bindE (Inl e) f = Inl e"
| "bindE (Inr x) f = f x"

subsection \<open>binary64\<close>

text \<open>
  A float is a finite value (kept as the rational it denotes), an infinity or a NaN.
  The two zeros are one value: they compare equal, and no operation of this program tells
  them apart (a Python division by either raises, and the divisors of this program are ints,
  whose zero converts to \<open>+0.0\<close>).
\<close>

datatype float64 = Finite rat | PInf | NInf | NaN

fun bit_length :: "nat \<Rightarrow> nat" where
  "bit_length n = (if n = 0 then 0 else Suc (bit_length (n div 2)))"

declare bit_length.simps [simp del]

definition pow2 :: "int \<Rightarrow> rat" where
  "pow2 k = (if 0 \<le> k then 2 ^ nat k else 1 / 2 ^ nat (- k))"

text \<open>\<open>ilog2 x\<close> is \<open>\<lfloor>log\<^sub>2 x\<rfloor>\<close> for a positive rational \<open>x\<close>.\<close>

definition ilog2 :: "rat \<Rightarrow> int" where
  "ilog2 x =
     (if 1 \<le> x then int (bit_length (nat \<lfloor>x\<rfloor>)) - 1
      else - int (bit_length (nat (\<lceil>1 / x\<rceil> - 1))))"

definition round_half_even :: "rat \<Rightarrow> int" where
  "round_half_even x =
     (let f = \<lfloor>x\<rfloor>; d = x - of_int f
      in if d < 1 / 2 then f
         else if 1 / 2 < d then f + 1
         else if even f then f else f + 1)"

text \<open>
  Rounding a rational to binary64: 53 significant bits, the least exponent of a unit in the
  last place is \<open>-1074\<close> (subnormals), and a rounded magnitude of \<open>2\<^sup>1\<^sup>0\<^sup>2\<^sup>4\<close> or more
  overflows to an infinity.
\<close>

definition round64 :: "rat \<Rightarrow> float64" where
  "round64 x =
     (if x = 0 then Finite 0
      else
        let e = max (ilog2 \<bar>x\<bar> - 52) (- 1074);
            y = of_int (round_half_even (\<bar>x\<bar> / pow2 e)) * pow2 e
        in if 2 ^ 1024 \<le> y then (if 0 < x then PInf else NInf)
           else Finite (if 0 < x then y else - y))"

fun fneg :: "float64 \<Rightarrow> float64" where
  "fneg (Finite a) = Finite (- a)"
| "fneg PInf = NInf"
| "fneg NInf = PInf"
| "fneg NaN = NaN"

fun fadd :: "float64 \<Rightarrow> float64 \<Rightarrow> float64" where
  "fadd (Finite a) (Finite b) = round64 (a + b)"
| "fadd NaN _ = NaN"
| "fadd _ NaN = NaN"
| "fadd PInf NInf = NaN"
| "fadd NInf PInf = NaN"
| "fadd PInf _ = PInf"
| "fadd NInf _ = NInf"
| "fadd _ PInf = PInf"
| "fadd _ NInf = NInf"

definition fsub :: "float64 \<Rightarrow> float64 \<Rightarrow> float64" where
  "fsub a b = fadd a (fneg b)"

text \<open>The sign of an infinity times or divided by a finite non-zero value.\<close>

definition signed_inf :: "bool \<Rightarrow> float64" where
  "signed_inf positive = (if positive then PInf else NInf)"

fun fmul :: "float64 \<Rightarrow> float64 \<Rightarrow> float64" where
  "fmul (Finite a) (Finite b) = round64 (a * b)"
| "fmul NaN _ = NaN"
| "fmul _ NaN = NaN"
| "fmul PInf (Finite b) = (if b = 0 then NaN else signed_inf (0 < b))"
| "fmul NInf (Finite b) = (if b = 0 then NaN else signed_inf (b < 0))"
| "fmul (Finite a) PInf = (if a = 0 then NaN else signed_inf (0 < a))"
| "fmul (Finite a) NInf = (if a = 0 then NaN else signed_inf (a < 0))"
| "fmul PInf PInf = PInf"
| "fmul NInf NInf = PInf"
| "fmul PInf NInf = NInf"
| "fmul NInf PInf = NInf"

text \<open>
  \<open>fdiv\<close> is only called with a non-zero divisor: Python raises before dividing, and
  NumPy's division by zero is \<open>numpy_truediv\<close> below.
\<close>

fun fdiv :: "float64 \<Rightarrow> float64 \<Rightarrow> float64" where
  "fdiv (Finite a) (Finite b) = round64 (a / b)"
| "fdiv NaN _ = NaN"
| "fdiv _ NaN = NaN"
| "fdiv PInf (Finite b) = signed_inf (0 < b)"
| "fdiv NInf (Finite b) = signed_inf (b < 0)"
| "fdiv (Finite a) PInf = Finite 0"
| "fdiv (Finite a) NInf = Finite 0"
| "fdiv PInf PInf = NaN"
| "fdiv NInf NInf = NaN"
| "fdiv PInf NInf = NaN"
| "fdiv NInf PInf = NaN"

subsection \<open>The numeric tower\<close>

text \<open>
  \<open>NPFloat\<close> is a \<^verbatim>\<open>numpy.float64\<close>: a binary64 value, of a subclass of
  \<^verbatim>\<open>float\<close>.
\<close>

datatype pynum = PInt int | PFloat float64 | PFrac rat | NPFloat float64

text \<open>
  \<^verbatim>\<open>float(n)\<close> of an int and of a Fraction is correctly rounded and raises
  \<^verbatim>\<open>OverflowError\<close> where the rounded value is out of range.
\<close>

definition rat_to_float :: "rat \<Rightarrow> exn + float64" where
  "rat_to_float r = (case round64 r of Finite y \<Rightarrow> Inr (Finite y) | _ \<Rightarrow> Inl OverflowError)"

fun to_float :: "pynum \<Rightarrow> exn + float64" where
  "to_float (PInt n) = rat_to_float (of_int n)"
| "to_float (PFrac r) = rat_to_float r"
| "to_float (PFloat f) = Inr f"
| "to_float (NPFloat f) = Inr f"

text \<open>\<^verbatim>\<open>isinstance(x, float)\<close>, which holds of a \<^verbatim>\<open>numpy.float64\<close> too.\<close>

fun is_float :: "pynum \<Rightarrow> bool" where
  "is_float (PFloat _) = True"
| "is_float (NPFloat _) = True"
| "is_float _ = False"


text \<open>The exact value of an int or a Fraction.\<close>

fun exact_val :: "pynum \<Rightarrow> rat" where
  "exact_val (PInt n) = of_int n"
| "exact_val (PFrac r) = r"
| "exact_val (PFloat _) = 0"
| "exact_val (NPFloat _) = 0"

text \<open>
  A binary operator of Python with a float operand converts both operands to float (left
  first) and works in binary64; otherwise, with a Fraction operand, it is exact on
  rationals; otherwise both are ints.
\<close>

definition float_op ::
  "(float64 \<Rightarrow> float64 \<Rightarrow> exn + float64) \<Rightarrow> pynum \<Rightarrow> pynum \<Rightarrow> exn + pynum" where
  "float_op f a b =
     bindE (to_float a) (\<lambda>x. bindE (to_float b) (\<lambda>y. bindE (f x y) (\<lambda>z. Inr (PFloat z))))"

text \<open>
  Where NumPy's operator is the one that runs. With a \<^verbatim>\<open>numpy.float64\<close> on the right
  it always is: its reflected method comes first after a \<^verbatim>\<open>float\<close> (it is a subclass),
  an int does not know the type, and a Fraction converts itself to \<^verbatim>\<open>float\<close> and
  operates again. With a \<^verbatim>\<open>numpy.float64\<close> on the left it is, unless the other operand
  is a Fraction, which NumPy hands back to Python's float arithmetic.
\<close>

fun numpy_operands :: "pynum \<Rightarrow> pynum \<Rightarrow> bool" where
  "numpy_operands _ (NPFloat _) = True"
| "numpy_operands (NPFloat _) (PFrac _) = False"
| "numpy_operands (NPFloat _) _ = True"
| "numpy_operands _ _ = False"

text \<open>
  NumPy's operator converts the other operand to binary64 (a Fraction by its own
  \<^verbatim>\<open>float()\<close>, an int as Python does: \<^verbatim>\<open>OverflowError\<close> beyond the range of binary64),
  works in binary64 and returns a \<^verbatim>\<open>numpy.float64\<close>. The operation itself raises
  nothing: an overflow or a division by zero is a \<^verbatim>\<open>RuntimeWarning\<close> in NumPy's default
  error state, and the result is the IEEE one. The scalar of an integer column,
  \<^verbatim>\<open>numpy.int64\<close>, is not part of the model.
\<close>

definition numpy_op :: "(float64 \<Rightarrow> float64 \<Rightarrow> float64) \<Rightarrow> pynum \<Rightarrow> pynum \<Rightarrow> exn + pynum" where
  "numpy_op f a b = bindE (to_float a) (\<lambda>x. bindE (to_float b) (\<lambda>y. Inr (NPFloat (f x y))))"

fun py_add :: "pynum \<Rightarrow> pynum \<Rightarrow> exn + pynum" where
  "py_add (PInt a) (PInt b) = Inr (PInt (a + b))"
| "py_add a b =
     (if numpy_operands a b then numpy_op fadd a b
      else if is_float a \<or> is_float b then float_op (\<lambda>x y. Inr (fadd x y)) a b
      else Inr (PFrac (exact_val a + exact_val b)))"

fun py_sub :: "pynum \<Rightarrow> pynum \<Rightarrow> exn + pynum" where
  "py_sub (PInt a) (PInt b) = Inr (PInt (a - b))"
| "py_sub a b =
     (if numpy_operands a b then numpy_op fsub a b
      else if is_float a \<or> is_float b then float_op (\<lambda>x y. Inr (fsub x y)) a b
      else Inr (PFrac (exact_val a - exact_val b)))"

fun py_mul :: "pynum \<Rightarrow> pynum \<Rightarrow> exn + pynum" where
  "py_mul (PInt a) (PInt b) = Inr (PInt (a * b))"
| "py_mul a b =
     (if numpy_operands a b then numpy_op fmul a b
      else if is_float a \<or> is_float b then float_op (\<lambda>x y. Inr (fmul x y)) a b
      else Inr (PFrac (exact_val a * exact_val b)))"

text \<open>
  True division. \<^verbatim>\<open>int / int\<close> is the correctly rounded quotient as a float
  (\<^verbatim>\<open>OverflowError\<close> out of range); a zero divisor raises \<^verbatim>\<open>ZeroDivisionError\<close>
  in every case where Python's operator runs, after the operands have been converted.
\<close>

definition float_truediv :: "float64 \<Rightarrow> float64 \<Rightarrow> exn + float64" where
  "float_truediv x y = (if y = Finite 0 then Inl ZeroDivisionError else Inr (fdiv x y))"

text \<open>
  NumPy's division does not raise on a zero divisor: a non-zero value over zero is an
  infinity of its sign, zero over zero and NaN over zero are NaN.
\<close>

definition numpy_truediv :: "float64 \<Rightarrow> float64 \<Rightarrow> float64" where
  "numpy_truediv x y =
     (if y = Finite 0
      then (case x of
              Finite a \<Rightarrow> (if a = 0 then NaN else signed_inf (0 < a))
            | PInf \<Rightarrow> PInf
            | NInf \<Rightarrow> NInf
            | NaN \<Rightarrow> NaN)
      else fdiv x y)"

fun py_truediv :: "pynum \<Rightarrow> pynum \<Rightarrow> exn + pynum" where
  "py_truediv (PInt a) (PInt b) =
     (if b = 0 then Inl ZeroDivisionError
      else bindE (rat_to_float (of_int a / of_int b)) (\<lambda>z. Inr (PFloat z)))"
| "py_truediv a b =
     (if numpy_operands a b then numpy_op numpy_truediv a b
      else if is_float a \<or> is_float b then float_op float_truediv a b
      else if exact_val b = 0 then Inl ZeroDivisionError
      else Inr (PFrac (exact_val a / exact_val b)))"

text \<open>
  The value a number denotes, as an extended rational (for an int or a Fraction the
  \<open>Finite\<close> value need not be a binary64 value). \<^verbatim>\<open>==\<close> and \<^verbatim>\<open><\<close> on numbers
  compare these values exactly; a NaN equals nothing and is less than nothing.
\<close>

fun value_of :: "pynum \<Rightarrow> float64" where
  "value_of (PInt n) = Finite (of_int n)"
| "value_of (PFrac r) = Finite r"
| "value_of (PFloat f) = f"
| "value_of (NPFloat f) = f"

definition py_eq :: "pynum \<Rightarrow> pynum \<Rightarrow> bool" where
  "py_eq a b = (value_of a \<noteq> NaN \<and> value_of a = value_of b)"

fun ext_less :: "float64 \<Rightarrow> float64 \<Rightarrow> bool" where
  "ext_less NaN _ = False"
| "ext_less _ NaN = False"
| "ext_less (Finite a) (Finite b) = (a < b)"
| "ext_less _ NInf = False"
| "ext_less NInf _ = True"
| "ext_less PInf _ = False"
| "ext_less _ PInf = True"

definition py_lt :: "pynum \<Rightarrow> pynum \<Rightarrow> bool" where
  "py_lt a b = ext_less (value_of a) (value_of b)"

section \<open>linear_equation and scaled_emissions\<close>

text \<open>
  The dictionary \<^verbatim>\<open>linear_equation\<close> returns, with its four keys. Years are Python
  ints, as the annotations of \<^verbatim>\<open>ipcc_range\<close> and \<^verbatim>\<open>get_target\<close> declare them;
  emissions and percentages are any numbers.
\<close>

record linear_result =
  slope :: pynum
  intercept :: pynum
  target_emissions :: pynum
  equation :: "pynum \<Rightarrow> exn + pynum"

definition linear_equation :: "int \<Rightarrow> pynum \<Rightarrow> pynum \<Rightarrow> int \<Rightarrow> exn + linear_result" where
  "linear_equation baseline_year baseline_emissions target_percent target_year =
     bindE (py_truediv target_percent (PInt 100)) (\<lambda>target_decimal.
     bindE (py_sub (PInt 1) target_decimal) (\<lambda>remaining.
     bindE (py_mul baseline_emissions remaining) (\<lambda>target_emissions.
     bindE (py_sub target_emissions baseline_emissions) (\<lambda>d_emission.
     bindE (py_sub (PInt target_year) (PInt baseline_year)) (\<lambda>d_year.
     bindE (py_truediv d_emission d_year) (\<lambda>slope.
     bindE (py_mul slope (PInt baseline_year)) (\<lambda>slope_base.
     bindE (py_sub baseline_emissions slope_base) (\<lambda>intercept.
     Inr \<lparr> slope = slope, intercept = intercept, target_emissions = target_emissions,
           equation = (\<lambda>YEAR. bindE (py_mul slope YEAR) (\<lambda>sy. py_add sy intercept)) \<rparr>))))))))"

definition scaled_emissions :: "int \<Rightarrow> pynum \<Rightarrow> pynum \<Rightarrow> int \<Rightarrow> int \<Rightarrow> exn + pynum" where
  "scaled_emissions baseline_year baseline_emissions target_percent target_year scale_year =
     bindE (linear_equation baseline_year baseline_emissions target_percent target_year)
       (\<lambda>le. equation le (PInt scale_year))"

section \<open>Tables\<close>

text \<open>
  The table engine is pandas. A \<^verbatim>\<open>DataFrame\<close> is modelled by its column labels and
  its rows in order, each row with its index label and one cell per column. A cell is a
  number, a string or \<^verbatim>\<open>None\<close>; a missing number is the float NaN. A number cell
  is held as the Python number that reading it out with \<^verbatim>\<open>Series.item()\<close> gives: the
  program compares cells, and does arithmetic on one only after \<^verbatim>\<open>.item()\<close>.
\<close>

datatype cell = Num pynum | Str string | NoneCell

record dataframe =
  columns :: "string list"
  rows :: "(int \<times> cell list) list"

text \<open>A \<^verbatim>\<open>Series\<close>: index labels and values.\<close>

type_synonym series = "(int \<times> cell) list"

definition get_col :: "string list \<Rightarrow> cell list \<Rightarrow> string \<Rightarrow> cell" where
  "get_col cols r c = (case map_of (zip cols r) c of Some v \<Rightarrow> v | None \<Rightarrow> NoneCell)"

text \<open>
  Elementwise \<^verbatim>\<open>==\<close> of a column with a scalar: numbers by value, strings by content,
  and \<^verbatim>\<open>None\<close> or values of different kinds are unequal.
\<close>

fun cell_eq :: "cell \<Rightarrow> cell \<Rightarrow> bool" where
  "cell_eq (Num a) (Num b) = py_eq a b"
| "cell_eq (Str s) (Str t) = (s = t)"
| "cell_eq _ _ = False"

text \<open>\<^verbatim>\<open>x[c] == v\<close>, a boolean mask over the rows; \<^verbatim>\<open>KeyError\<close> without column \<open>c\<close>.\<close>

definition col_eq_mask :: "dataframe \<Rightarrow> string \<Rightarrow> cell \<Rightarrow> exn + (cell list \<Rightarrow> bool)" where
  "col_eq_mask df c v =
     (if c \<in> set (columns df) then Inr (\<lambda>r. cell_eq (get_col (columns df) r c) v)
      else Inl KeyError)"

text \<open>\<^verbatim>\<open>df.loc[mask]\<close>: the rows the mask selects, in order, with their index labels.\<close>

definition loc_rows :: "dataframe \<Rightarrow> (cell list \<Rightarrow> bool) \<Rightarrow> dataframe" where
  "loc_rows df keep = df\<lparr> rows := filter (\<lambda>(i, r). keep r) (rows df) \<rparr>"

text \<open>\<^verbatim>\<open>df.loc[:, cs]\<close> with a list of labels; \<^verbatim>\<open>KeyError\<close> when a label is missing.\<close>

definition select_columns :: "dataframe \<Rightarrow> string list \<Rightarrow> exn + dataframe" where
  "select_columns df cs =
     (if list_all (\<lambda>c. c \<in> set (columns df)) cs
      then Inr \<lparr> columns = cs,
                 rows = map (\<lambda>(i, r). (i, map (get_col (columns df) r) cs)) (rows df) \<rparr>
      else Inl KeyError)"

text \<open>\<^verbatim>\<open>df[c]\<close> and \<^verbatim>\<open>df.loc[:, c]\<close> with one label: a Series.\<close>

definition select_series :: "dataframe \<Rightarrow> string \<Rightarrow> exn + series" where
  "select_series df c =
     (if c \<in> set (columns df)
      then Inr (map (\<lambda>(i, r). (i, get_col (columns df) r c)) (rows df))
      else Inl KeyError)"

text \<open>
  \<^verbatim>\<open>Series.item()\<close>: the only value of a Series of size one;
  \<^verbatim>\<open>ValueError\<close> for every other size.
\<close>

fun item :: "series \<Rightarrow> exn + cell" where
  "item [(i, v)] = Inr v"
| "item _ = Inl ValueError"

definition reset_index :: "dataframe \<Rightarrow> dataframe" where
  "reset_index df = df\<lparr> rows := zip (map int [0 ..< length (rows df)]) (map snd (rows df)) \<rparr>"

text \<open>
  \<^verbatim>\<open>pd.concat([a, b])\<close>: the rows of \<open>a\<close>, then the rows of \<open>b\<close>, over the columns of
  \<open>a\<close> followed by the further columns of \<open>b\<close>; a cell a frame does not have is missing.
\<close>

definition pd_concat :: "dataframe \<Rightarrow> dataframe \<Rightarrow> dataframe" where
  "pd_concat a b =
     (let cs = columns a @ filter (\<lambda>c. c \<notin> set (columns a)) (columns b)
      in \<lparr> columns = cs,
           rows = map (\<lambda>(i, r). (i, map (get_col (columns a) r) cs)) (rows a)
                @ map (\<lambda>(i, r). (i, map (get_col (columns b) r) cs)) (rows b) \<rparr>)"

text \<open>
  \<^verbatim>\<open>drop_duplicates()\<close> keeps the first of the rows with the same cells (the index label
  does not count).
\<close>

fun drop_dups :: "cell list list \<Rightarrow> (int \<times> cell list) list \<Rightarrow> (int \<times> cell list) list" where
  "drop_dups seen [] = []"
| "drop_dups seen ((i, r) # rs) =
     (if r \<in> set seen then drop_dups seen rs else (i, r) # drop_dups (r # seen) rs)"

definition drop_duplicates :: "dataframe \<Rightarrow> dataframe" where
  "drop_duplicates df = df\<lparr> rows := drop_dups [] (rows df) \<rparr>"

text \<open>
  \<^verbatim>\<open>Series.min()\<close> skips missing values, is NaN for an empty Series and compares the
  rest with \<^verbatim>\<open><\<close>. A string among the values is a \<^verbatim>\<open>TypeError\<close> here: the only
  Series this program takes a minimum of holds values equal to a number, which are numbers.
\<close>

fun present_numbers :: "cell list \<Rightarrow> exn + pynum list" where
  "present_numbers [] = Inr []"
| "present_numbers (Num n # vs) =
     bindE (present_numbers vs) (\<lambda>ns. Inr (if value_of n = NaN then ns else n # ns))"
| "present_numbers (NoneCell # vs) = present_numbers vs"
| "present_numbers (Str s # vs) = Inl TypeError"

definition series_min :: "series \<Rightarrow> exn + cell" where
  "series_min s =
     bindE (present_numbers (map snd s)) (\<lambda>ns.
       case ns of
         [] \<Rightarrow> Inr (Num (PFloat NaN))
       | n # ms \<Rightarrow> Inr (Num (fold (\<lambda>x m. if py_lt x m then x else m) ms n)))"

section \<open>The data client\<close>

text \<open>
  The program reaches the data service through \<^verbatim>\<open>oc.Client()\<close> only. What the client
  does is a parameter of the model: for each call expression, either the exception that
  leaves it or the table it returns (the client's contract is to return a table). An
  attribute lookup that fails on what the client built is an \<^verbatim>\<open>AttributeError\<close> of
  the call expression.
\<close>

record client =
  jupyter :: "exn + unit"
  emissions :: "string \<Rightarrow> string \<Rightarrow> exn + dataframe"
  parts :: "string \<Rightarrow> string \<Rightarrow> exn + dataframe"
  search :: "string \<Rightarrow> exn + dataframe"
  targets :: "string \<Rightarrow> exn + dataframe"

section \<open>The lookup functions\<close>

text \<open>
  \<^verbatim>\<open>actor_parts\<close> returns a table or \<^verbatim>\<open>None\<close>, or raises; the second component
  is what it prints.
\<close>

definition actor_parts ::
  "client \<Rightarrow> string \<Rightarrow> string \<Rightarrow> (exn + dataframe option) \<times> string list" where
  "actor_parts c actor_id part_type =
     (case
        bindE (parts c actor_id part_type) (\<lambda>p.
        bindE (select_columns p [''name'', ''actor_id'']) (\<lambda>p'.
        let df_parts = reset_index p' in
        bindE (search c actor_id) (\<lambda>s.
        bindE (col_eq_mask s ''actor_id'' (Str actor_id)) (\<lambda>is_match.
        bindE (select_columns (loc_rows s is_match) [''name'', ''actor_id'']) (\<lambda>df_actor.
        Inr (pd_concat df_actor df_parts))))))
      of
        Inr df \<Rightarrow> (Inr (Some df), [])
      | Inl AttributeError \<Rightarrow> (Inr None, [''ERROR: '' @ actor_id @ '' not found''])
      | Inl KeyError \<Rightarrow>
          (Inr None, [actor_id @ '' does not have any '' @ part_type @ '' types''])
      | Inl e \<Rightarrow> (Inl e, []))"

definition cols_out :: "string list" where
  "cols_out = [''actor_id'', ''baseline_year'', ''target_year'', ''target_value'', ''target_unit'']"

text \<open>
  \<^verbatim>\<open>get_target\<close> never raises: the bare \<^verbatim>\<open>except\<close> turns every exception of the
  pipeline into \<^verbatim>\<open>None\<close>. The parameter \<^verbatim>\<open>data_id\<close> is not used.
\<close>

definition get_target :: "client \<Rightarrow> string \<Rightarrow> int \<Rightarrow> string option \<Rightarrow> dataframe option" where
  "get_target c actor_id year data_id =
     (case
        bindE (targets c actor_id) (\<lambda>t.
        bindE (col_eq_mask t ''target_type'' (Str ''Absolute emission reduction'')) (\<lambda>is_match.
        bindE (select_columns (loc_rows t is_match)
                 [''actor_id'', ''baseline_year'', ''target_year'', ''target_value'',
                  ''target_unit'', ''datasource_id'']) (\<lambda>part_targets.
        bindE (select_series part_targets ''target_year'') (\<lambda>years.
        bindE (series_min (filter (\<lambda>(i, v). cell_eq v (Num (PInt year))) years))
          (\<lambda>closest_target.
        bindE (col_eq_mask part_targets ''target_year'' closest_target) (\<lambda>is_closest.
        bindE (select_columns (loc_rows part_targets is_closest) cols_out) (\<lambda>target.
        Inr (drop_duplicates target))))))))
      of
        Inr target \<Rightarrow> Some target
      | Inl e \<Rightarrow> None)"


section \<open>ipcc_range\<close>

text \<open>
  A string or \<^verbatim>\<open>None\<close> times a float or a Fraction is a \<^verbatim>\<open>TypeError\<close>.
\<close>

fun cell_mul :: "cell \<Rightarrow> pynum \<Rightarrow> exn + pynum" where
  "cell_mul (Num n) r = py_mul n r"
| "cell_mul _ r = Inl TypeError"

text \<open>The dictionary \<^verbatim>\<open>ipcc_range\<close> returns, as its items in insertion order.\<close>

definition ipcc_range ::
  "dataframe \<Rightarrow> string option \<Rightarrow> int \<Rightarrow> pynum \<Rightarrow> pynum \<Rightarrow> exn + (string \<times> pynum) list" where
  "ipcc_range df actor_id baseline_year target_value15 target_value20 =
     bindE
       (case actor_id of
          None \<Rightarrow>
            bindE (col_eq_mask df ''year'' (Num (PInt baseline_year))) (\<lambda>is_match.
            bindE (select_series (loc_rows df is_match) ''total_emissions'') item)
        | Some a \<Rightarrow>
            bindE (col_eq_mask df ''actor_id'' (Str a)) (\<lambda>is_actor.
            let df_a = loc_rows df is_actor in
            bindE (col_eq_mask df_a ''year'' (Num (PInt baseline_year))) (\<lambda>is_match.
            bindE (select_series (loc_rows df_a is_match) ''total_emissions'') item)))
       (\<lambda>baseline_emissions.
     bindE (py_truediv target_value15 (PInt 100)) (\<lambda>d15.
     bindE (py_sub (PInt 1) d15) (\<lambda>r15.
     bindE (cell_mul baseline_emissions r15) (\<lambda>target_15.
     bindE (py_truediv target_value20 (PInt 100)) (\<lambda>d20.
     bindE (py_sub (PInt 1) d20) (\<lambda>r20.
     bindE (cell_mul baseline_emissions r20) (\<lambda>target_20.
     Inr [(''baseline_year'', PInt baseline_year),
          (''target_value_1.5C'', target_value15),
          (''target_emissions_1.5C'', target_15),
          (''target_value_2.0C'', target_value20),
          (''target_emissions_2.0C'', target_20)])))))))"

text \<open>
  The rows the baseline filter of \<^verbatim>\<open>ipcc_range\<close> is specified to match: those of the
  actor, when one is given, whose year is the baseline year.
\<close>

definition baseline_matches ::
  "dataframe \<Rightarrow> string option \<Rightarrow> int \<Rightarrow> (int \<times> cell list) list" where
  "baseline_matches df actor_id baseline_year =
     filter (\<lambda>(i, r).
        (case actor_id of
           None \<Rightarrow> True
         | Some a \<Rightarrow> cell_eq (get_col (columns df) r ''actor_id'') (Str a)) \<and>
        cell_eq (get_col (columns df) r ''year'') (Num (PInt baseline_year)))
       (rows df)"

section \<open>Evaluation and arithmetic lemmas\<close>

lemma bit_length_0 [simp]: "bit_length 0 = 0"
  by (simp add: bit_length.simps)

lemma bit_length_Suc_0 [simp]: "bit_length (Suc 0) = Suc 0"
  by (simp add: bit_length.simps)

lemma bit_length_numeral [simp]:
  "bit_length (numeral k) = Suc (bit_length (numeral k div 2))"
  by (subst bit_length.simps) simp

lemma floor_rat_numeral [simp]:
  "\<lfloor>(numeral a :: rat) / numeral b\<rfloor> = numeral a div numeral b"
  using floor_divide_of_int_eq [of "numeral a" "numeral b", where ?'a = rat] by simp

lemma ceiling_rat_numeral [simp]:
  "\<lceil>(numeral a :: rat) / numeral b\<rceil> = - ((- numeral a) div numeral b)"
  using floor_divide_of_int_eq [of "- numeral a" "numeral b", where ?'a = rat]
  by (simp add: ceiling_def)

lemma bit_length_pos: "0 < n \<Longrightarrow> 0 < bit_length n"
  by (subst bit_length.simps) simp

lemma bit_length_lower: "0 < n \<Longrightarrow> 2 ^ (bit_length n - 1) \<le> n"
proof (induction n rule: bit_length.induct)
  case (1 n)
  show ?case
  proof (cases "n div 2 = 0")
    case True
    with 1(2) have "n = 1" by presburger
    then show ?thesis by simp
  next
    case False
    then have pos: "0 < n div 2" by simp
    from 1(1) [OF _ pos] 1(2) have ih: "2 ^ (bit_length (n div 2) - 1) \<le> n div 2" by simp
    have bl: "bit_length n = Suc (bit_length (n div 2))"
      using 1(2) by (subst bit_length.simps) simp
    have "0 < bit_length (n div 2)" using pos by (rule bit_length_pos)
    then have "2 ^ (bit_length n - 1) = 2 * 2 ^ (bit_length (n div 2) - 1)"
      unfolding bl by (cases "bit_length (n div 2)") simp_all
    also have "\<dots> \<le> 2 * (n div 2)" using ih by simp
    also have "\<dots> \<le> n" by simp
    finally show ?thesis .
  qed
qed

lemma bit_length_upper: "n < 2 ^ bit_length n"
proof (induction n rule: bit_length.induct)
  case (1 n)
  show ?case
  proof (cases "n = 0")
    case True
    then show ?thesis by simp
  next
    case False
    then have ih: "n div 2 < 2 ^ bit_length (n div 2)" using 1 by simp
    have bl: "bit_length n = Suc (bit_length (n div 2))"
      using False by (subst bit_length.simps) simp
    have "n < 2 * (n div 2) + 2" by presburger
    also have "\<dots> \<le> 2 * 2 ^ bit_length (n div 2)" using ih by simp
    finally show ?thesis unfolding bl by simp
  qed
qed

lemma pow2_pos [simp]: "0 < pow2 k"
  by (simp add: pow2_def)

lemma pow2_add: "pow2 (j + k) = pow2 j * pow2 k"
proof -
  have "pow2 k = 2 powi k" for k
    by (simp add: pow2_def power_int_def field_simps)
  then show ?thesis by (simp add: power_int_add)
qed

lemma pow2_nat: "pow2 (int n) = 2 ^ n"
  by (simp add: pow2_def)

lemma pow2_neg: "pow2 (- k) = 1 / pow2 k"
  using pow2_add [of k "- k"] by (simp add: field_simps pow2_def)

lemma pow2_mono: "j \<le> k \<Longrightarrow> pow2 j \<le> pow2 k"
proof -
  assume "j \<le> k"
  then obtain n where k: "k = j + int n" by (metis nat_int_add zle_iff_zadd)
  have "pow2 j * 1 \<le> pow2 j * 2 ^ n" by (intro mult_left_mono) (simp_all add: less_imp_le)
  then show ?thesis by (simp add: k pow2_add pow2_nat)
qed

lemma ilog2_lower: "0 < x \<Longrightarrow> pow2 (ilog2 x) \<le> x"
proof (cases "1 \<le> x")
  case True
  define n where "n = nat \<lfloor>x\<rfloor>"
  have npos: "0 < n" using True by (simp add: n_def)
  have nle: "of_nat n \<le> x" using True by (simp add: n_def)
  have "ilog2 x = int (bit_length n - 1)"
    using True bit_length_pos [OF npos] by (simp add: ilog2_def n_def)
  then have "pow2 (ilog2 x) = 2 ^ (bit_length n - 1)" by (simp add: pow2_nat)
  also have "\<dots> = of_nat (2 ^ (bit_length n - 1))" by simp
  also have "\<dots> \<le> of_nat n" using bit_length_lower [OF npos] by (simp only: of_nat_le_iff)
  finally show ?thesis using nle by simp
next
  case False
  assume xpos: "0 < x"
  define c where "c = \<lceil>1 / x\<rceil>"
  define n where "n = nat (c - 1)"
  have "1 < 1 / x" using False xpos by (simp add: field_simps)
  then have c2: "2 \<le> c" unfolding c_def by (simp add: le_ceiling_iff)
  have cn: "c = int n + 1" using c2 by (simp add: n_def)
  have "1 / x \<le> of_int c" unfolding c_def by (rule le_of_int_ceiling)
  also have "of_int c \<le> (of_nat (2 ^ bit_length n) :: rat)"
    using bit_length_upper [of n] unfolding cn
    by (metis of_int_of_nat_eq of_int_le_iff of_nat_Suc Suc_leI of_nat_le_iff add.commute of_int_add of_int_1 of_nat_1 of_nat_add)
  finally have "1 / x \<le> 2 ^ bit_length n" by simp
  then have "1 / 2 ^ bit_length n \<le> x" using xpos by (simp add: field_simps)
  moreover have "ilog2 x = - int (bit_length n)"
    using False by (simp add: ilog2_def n_def c_def)
  ultimately show ?thesis by (simp add: pow2_neg pow2_nat)
qed

lemmas eval_defs =
  round64_def ilog2_def round_half_even_def pow2_def Let_def rat_to_float_def
  float_op_def float_truediv_def fsub_def signed_inf_def

lemma bindE_case: "bindE m f = (case m of Inl e \<Rightarrow> Inl e | Inr x \<Rightarrow> f x)"
  by (cases m) simp_all

lemma round_half_even_ge_1: "1 \<le> z \<Longrightarrow> 1 \<le> round_half_even z"
proof -
  assume "1 \<le> z"
  then have "1 \<le> \<lfloor>z\<rfloor>" by simp
  then show ?thesis by (simp add: round_half_even_def Let_def)
qed

lemma ilog2_nonneg: "1 \<le> x \<Longrightarrow> 0 \<le> ilog2 x"
proof -
  assume x: "1 \<le> x"
  then have "0 < nat \<lfloor>x\<rfloor>" by simp
  then have "0 < bit_length (nat \<lfloor>x\<rfloor>)" by (rule bit_length_pos)
  then show ?thesis using x by (simp add: ilog2_def)
qed

lemma round64_nonzero: "1 \<le> \<bar>x\<bar> \<Longrightarrow> round64 x \<noteq> Finite 0"
proof -
  assume x: "1 \<le> \<bar>x\<bar>"
  define e where "e = max (ilog2 \<bar>x\<bar> - 52) (- 1074)"
  define m where "m = round_half_even (\<bar>x\<bar> / pow2 e)"
  have k: "0 \<le> ilog2 \<bar>x\<bar>" using x by (rule ilog2_nonneg)
  then have "e \<le> ilog2 \<bar>x\<bar>" by (simp add: e_def)
  then have "pow2 e \<le> pow2 (ilog2 \<bar>x\<bar>)" by (rule pow2_mono)
  also have "\<dots> \<le> \<bar>x\<bar>" using x by (intro ilog2_lower) simp
  finally have "1 \<le> \<bar>x\<bar> / pow2 e" by (simp add: field_simps)
  then have "1 \<le> m" unfolding m_def by (rule round_half_even_ge_1)
  then have "0 < rat_of_int m * pow2 e" by (simp add: zero_less_mult_iff)
  moreover have "x \<noteq> 0" using x by auto
  ultimately show ?thesis
    unfolding round64_def Let_def e_def [symmetric] m_def [symmetric] by auto
qed

lemma to_float_int_nonzero:
  assumes "n \<noteq> 0" and "to_float (PInt n) = Inr f"
  shows "f \<noteq> Finite 0"
proof -
  have "1 \<le> \<bar>rat_of_int n\<bar>" using assms(1)
    by (metis of_int_abs of_int_1_le_iff zero_less_abs_iff zless_imp_add1_zle add_0)
  then have "round64 (of_int n) \<noteq> Finite 0" by (rule round64_nonzero)
  then show ?thesis using assms(2)
    by (auto simp: rat_to_float_def split: float64.splits)
qed

lemma rat_to_float_0 [simp]: "rat_to_float 0 = Inr (Finite 0)"
  by (simp add: eval_defs)

lemma rat_to_float_1 [simp]: "rat_to_float 1 = Inr (Finite 1)"
  by (simp add: eval_defs)

lemma rat_to_float_100 [simp]: "rat_to_float 100 = Inr (Finite 100)"
  by (simp add: eval_defs)

lemma bindE_eq_Inr: "bindE m f = Inr y \<longleftrightarrow> (\<exists>x. m = Inr x \<and> f x = Inr y)"
  by (cases m) simp_all


subsection \<open>Builtin numbers stay builtin, and raise on a zero divisor\<close>





lemma rat_to_float_error: "rat_to_float x = Inl err \<Longrightarrow> err = OverflowError"
  by (auto simp: rat_to_float_def split: float64.splits)

lemma to_float_error: "to_float a = Inl err \<Longrightarrow> err = OverflowError"
  by (cases a) (auto dest: rat_to_float_error)









lemma linear_equation_fields:
  assumes "linear_equation b e p t = Inr r"
  shows "\<exists>td rem de sb.
           py_truediv p (PInt 100) = Inr td \<and> py_sub (PInt 1) td = Inr rem \<and>
           py_mul e rem = Inr (target_emissions r) \<and>
           py_sub (target_emissions r) e = Inr de \<and>
           py_truediv de (PInt (t - b)) = Inr (slope r) \<and>
           py_mul (slope r) (PInt b) = Inr sb \<and>
           py_sub e sb = Inr (intercept r) \<and>
           equation r = (\<lambda>YEAR. bindE (py_mul (slope r) YEAR) (\<lambda>sy. py_add sy (intercept r)))"
  using assms
  by (auto simp: linear_equation_def bindE_eq_Inr)

lemma linear_equation_floats:
  assumes "t \<noteq> b" and "to_float (PInt b) = Inr fb" and "to_float (PInt (t - b)) = Inr fd"
  shows "\<exists>r. linear_equation b (PFloat e) (PFloat p) t = Inr r \<and>
           target_emissions r = PFloat (fmul e (fsub (Finite 1) (fdiv p (Finite 100)))) \<and>
           slope r = PFloat (fdiv (fsub (fmul e (fsub (Finite 1) (fdiv p (Finite 100)))) e) fd) \<and>
           intercept r = PFloat (fsub e (fmul
              (fdiv (fsub (fmul e (fsub (Finite 1) (fdiv p (Finite 100)))) e) fd) fb))"
proof -
  have "fd \<noteq> Finite 0" using assms(1,3) to_float_int_nonzero [of "t - b" fd] by simp
  then show ?thesis using assms(2,3)
    by (simp add: linear_equation_def float_op_def float_truediv_def)
qed

lemma linear_equation_example:
  "\<exists>r. linear_equation 2020 (PInt 100) (PInt 50) 2030 = Inr r \<and>
     slope r = PFloat (Finite (- 5)) \<and> intercept r = PFloat (Finite 10200) \<and>
     target_emissions r = PFloat (Finite 50) \<and>
     equation r (PInt 2025) = Inr (PFloat (Finite 75))"
  by (simp add: linear_equation_def eval_defs)

lemma scaled_exact_baseline:
  assumes "\<not> is_float e" and "t \<noteq> b"
  shows "scaled_emissions b e (PFrac q) t b = Inr (PFrac (exact_val e))"
  using assms by (cases e) (simp_all add: scaled_emissions_def linear_equation_def)

lemma line_at_target:
  fixes t b D x :: rat
  assumes "t \<noteq> b"
  shows "D * t / (t - b) + (x - D * b / (t - b)) = x + D"
proof -
  have "D * t / (t - b) - D * b / (t - b) = D * (t - b) / (t - b)"
    by (simp add: diff_divide_distrib right_diff_distrib)
  also have "\<dots> = D" using assms by simp
  finally show ?thesis by simp
qed

lemma scaled_exact_target:
  assumes "\<not> is_float e" and "t \<noteq> b"
  shows "scaled_emissions b e (PFrac q) t t = Inr (PFrac (exact_val e * (1 - q / 100)))"
  using assms by (cases e) (simp_all add: scaled_emissions_def linear_equation_def line_at_target)

lemma scaled_example_baseline:
  "scaled_emissions 2020 (PInt 100) (PInt 50) 2030 2020 = Inr (PFloat (Finite 100))"
  by (simp add: scaled_emissions_def linear_equation_def eval_defs)

lemma scaled_example_target:
  "scaled_emissions 2020 (PInt 100) (PInt 50) 2030 2030 = Inr (PFloat (Finite 50))"
  by (simp add: scaled_emissions_def linear_equation_def eval_defs)

section \<open>Lemmas on the table operations\<close>

lemma item_eq_Inr: "item s = Inr v \<longleftrightarrow> (\<exists>i. s = [(i, v)])"
  by (cases s rule: item.cases) auto

lemma item_error: "length s \<noteq> 1 \<Longrightarrow> item s = Inl ValueError"
  by (cases s rule: item.cases) auto

lemma get_col_present:
  "get_col cols r c \<noteq> NoneCell \<Longrightarrow> c \<in> set cols"
  by (auto simp: get_col_def split: option.splits dest: map_of_SomeD set_zip_leftD)

lemma cell_eq_present: "cell_eq (get_col cols r c) v \<Longrightarrow> c \<in> set cols"
  using get_col_present [of cols r c] by (cases "get_col cols r c") simp_all

lemma filter_filter_pair:
  "filter (\<lambda>(i, r). P r) (filter (\<lambda>(i, r). Q r) xs) = filter (\<lambda>(i, r). Q r \<and> P r) xs"
  by (induction xs) auto

lemma baseline_series:
  "ipcc_range df a y tv15 tv20 =
     bindE
       (if (case a of None \<Rightarrow> True | Some s \<Rightarrow> ''actor_id'' \<in> set (columns df))
           \<and> ''year'' \<in> set (columns df) \<and> ''total_emissions'' \<in> set (columns df)
        then item (map (\<lambda>(i, r). (i, get_col (columns df) r ''total_emissions''))
                    (baseline_matches df a y))
        else Inl KeyError)
       (\<lambda>baseline_emissions.
     bindE (py_truediv tv15 (PInt 100)) (\<lambda>d15.
     bindE (py_sub (PInt 1) d15) (\<lambda>r15.
     bindE (cell_mul baseline_emissions r15) (\<lambda>target_15.
     bindE (py_truediv tv20 (PInt 100)) (\<lambda>d20.
     bindE (py_sub (PInt 1) d20) (\<lambda>r20.
     bindE (cell_mul baseline_emissions r20) (\<lambda>target_20.
     Inr [(''baseline_year'', PInt y),
          (''target_value_1.5C'', tv15),
          (''target_emissions_1.5C'', target_15),
          (''target_value_2.0C'', tv20),
          (''target_emissions_2.0C'', target_20)])))))))"
  by (cases a)
     (simp_all add: ipcc_range_def baseline_matches_def col_eq_mask_def select_series_def
        loc_rows_def filter_filter_pair Let_def del: filter_filter)

lemma ipcc_range_ambiguous:
  assumes "length (baseline_matches df a y) \<noteq> 1"
  shows "ipcc_range df a y tv15 tv20 = Inl ValueError \<or> ipcc_range df a y tv15 tv20 = Inl KeyError"
  using assms by (simp add: baseline_series item_error)

lemma ipcc_range_unique:
  assumes "baseline_matches df a y = [(i, r)]"
    and "get_col (columns df) r ''total_emissions'' = Num B"
  shows "ipcc_range df a y tv15 tv20 =
     bindE (py_truediv tv15 (PInt 100)) (\<lambda>d15.
     bindE (py_sub (PInt 1) d15) (\<lambda>r15.
     bindE (py_mul B r15) (\<lambda>target_15.
     bindE (py_truediv tv20 (PInt 100)) (\<lambda>d20.
     bindE (py_sub (PInt 1) d20) (\<lambda>r20.
     bindE (py_mul B r20) (\<lambda>target_20.
     Inr [(''baseline_year'', PInt y),
          (''target_value_1.5C'', tv15),
          (''target_emissions_1.5C'', target_15),
          (''target_value_2.0C'', tv20),
          (''target_emissions_2.0C'', target_20)]))))))"
proof -
  have mem: "(i, r) \<in> set (baseline_matches df a y)" using assms(1) by simp
  then have year: "''year'' \<in> set (columns df)"
    by (auto simp: baseline_matches_def dest: cell_eq_present)
  have actor: "(case a of None \<Rightarrow> True | Some s \<Rightarrow> ''actor_id'' \<in> set (columns df))"
    using mem by (auto simp: baseline_matches_def split: option.splits dest: cell_eq_present)
  have total: "''total_emissions'' \<in> set (columns df)"
    using assms(2) get_col_present [of "columns df" r "''total_emissions''"] by simp
  show ?thesis
    unfolding baseline_series using year actor total assms by simp
qed

lemma ipcc_range_floats:
  assumes "baseline_matches df a y = [(i, r)]"
    and "get_col (columns df) r ''total_emissions'' = Num (PFloat B)"
  shows "ipcc_range df a y (PFloat v15) (PFloat v20) =
     Inr [(''baseline_year'', PInt y),
          (''target_value_1.5C'', PFloat v15),
          (''target_emissions_1.5C'', PFloat (fmul B (fsub (Finite 1) (fdiv v15 (Finite 100))))),
          (''target_value_2.0C'', PFloat v20),
          (''target_emissions_2.0C'', PFloat (fmul B (fsub (Finite 1) (fdiv v20 (Finite 100)))))]"
  unfolding ipcc_range_unique [OF assms]
  by (simp add: float_op_def float_truediv_def)

lemma ipcc_range_example:
  "ipcc_range \<lparr> columns = [''year'', ''total_emissions''],
                rows = [(0, [Num (PInt 2019), Num (PInt 200)])] \<rparr> None 2019 (PInt 43) (PInt 27) =
     Inr [(''baseline_year'', PInt 2019),
          (''target_value_1.5C'', PInt 43),
          (''target_emissions_1.5C'', PFloat (Finite (8022036836253697 / 70368744177664))),
          (''target_value_2.0C'', PInt 27),
          (''target_emissions_2.0C'', PFloat (Finite 146))]"
  by (simp add: baseline_series baseline_matches_def get_col_def py_eq_def eval_defs)

lemma ipcc_range_missing:
  assumes "length (baseline_matches df a y) \<noteq> 1"
    and "''year'' \<in> set (columns df)" and "''total_emissions'' \<in> set (columns df)"
    and "a \<noteq> None \<longrightarrow> ''actor_id'' \<in> set (columns df)"
  shows "ipcc_range df a y tv15 tv20 = Inl ValueError"
  using assms by (cases a) (simp_all add: baseline_series item_error)


lemma scaled_float_baseline:
  assumes "linear_equation b (PFloat (Finite e)) p t = Inr r"
    and "round64 e = Finite e"
    and "py_mul (slope r) (PInt b) = Inr (PFloat (Finite sb))"
    and "intercept r = PFloat (Finite (e - sb))"
  shows "scaled_emissions b (PFloat (Finite e)) p t b = Inr (PFloat (Finite e))"
proof -
  have eq: "equation r = (\<lambda>YEAR. bindE (py_mul (slope r) YEAR) (\<lambda>sy. py_add sy (intercept r)))"
    using linear_equation_fields [OF assms(1)] by blast
  show ?thesis
    by (simp add: scaled_emissions_def assms eq float_op_def)
qed

lemma cell_eq_year:
  "cell_eq v (Num (PInt y)) \<longleftrightarrow> (\<exists>n. v = Num n \<and> value_of n = Finite (of_int y))"
  by (cases v) (auto simp: py_eq_def)

lemma cell_eq_same_value:
  assumes "value_of n = Finite (of_int y)"
  shows "cell_eq v (Num n) = cell_eq v (Num (PInt y))"
  using assms by (cases v) (auto simp: py_eq_def)

lemma cell_eq_nan [simp]: "cell_eq v (Num (PFloat NaN)) = False"
  by (cases v) (auto simp: py_eq_def)

lemma present_numbers_selection:
  assumes "\<forall>v \<in> set vs. cell_eq v (Num (PInt y))"
  shows "\<exists>ns. present_numbers vs = Inr ns \<and> length ns = length vs \<and>
           (\<forall>n \<in> set ns. value_of n = Finite (of_int y))"
  using assms
proof (induction vs)
  case Nil
  then show ?case by simp
next
  case (Cons v vs)
  then obtain n where v: "v = Num n" and n: "value_of n = Finite (of_int y)"
    by (auto simp: cell_eq_year)
  from Cons obtain ns where "present_numbers vs = Inr ns" "length ns = length vs"
      "\<forall>n \<in> set ns. value_of n = Finite (of_int y)"
    by auto
  then show ?case using v n by simp
qed

lemma fold_min_mem: "fold (\<lambda>x m. if py_lt x m then x else m) ms n \<in> set (n # ms)"
  by (induction ms arbitrary: n) (simp, force)

lemma series_min_selection:
  assumes "\<forall>(i, v) \<in> set s. cell_eq v (Num (PInt y))"
  shows "\<exists>c. series_min s = Inr c \<and> (\<forall>v. cell_eq v c \<longleftrightarrow> s \<noteq> [] \<and> cell_eq v (Num (PInt y)))"
proof -
  have "\<forall>v \<in> set (map snd s). cell_eq v (Num (PInt y))" using assms by auto
  from present_numbers_selection [OF this]
  obtain ns where ns: "present_numbers (map snd s) = Inr ns" "length ns = length s"
      "\<forall>n \<in> set ns. value_of n = Finite (of_int y)"
    by auto
  show ?thesis
  proof (cases ns)
    case Nil
    then have "s = []" using ns(2) by simp
    then show ?thesis by (simp add: series_min_def)
  next
    case (Cons n ms)
    define m where "m = fold (\<lambda>x m. if py_lt x m then x else m) ms n"
    have "m \<in> set ns" unfolding m_def Cons by (rule fold_min_mem)
    then have "value_of m = Finite (of_int y)" using ns(3) by blast
    then have "cell_eq v (Num m) = cell_eq v (Num (PInt y))" for v
      by (rule cell_eq_same_value)
    moreover have "s \<noteq> []" using ns(2) Cons by auto
    moreover have "series_min s = Inr (Num m)"
      by (simp add: series_min_def ns(1) Cons m_def)
    ultimately show ?thesis by simp
  qed
qed

lemma drop_dups_subset: "set (drop_dups seen xs) \<subseteq> set xs"
  by (induction seen xs rule: drop_dups.induct) auto

lemma drop_dups_fresh: "snd ` set (drop_dups seen xs) \<inter> set seen = {}"
  by (induction seen xs rule: drop_dups.induct) auto

lemma drop_dups_distinct: "distinct (map snd (drop_dups seen xs))"
proof (induction seen xs rule: drop_dups.induct)
  case (1 seen)
  then show ?case by simp
next
  case (2 seen i r rs)
  have "r \<notin> snd ` set (drop_dups (r # seen) rs)"
    using drop_dups_fresh [of "r # seen" rs] by auto
  then show ?case using 2 by auto
qed

lemma drop_dups_complete: "snd ` set (drop_dups seen xs) = snd ` set xs - set seen"
  by (induction seen xs rule: drop_dups.induct) auto

lemma drop_dups_Nil_iff: "drop_dups [] xs = [] \<longleftrightarrow> xs = []"
  by (cases xs) auto

section \<open>Lemmas on the lookup functions\<close>

lemma get_col_cols6:
  "get_col [''actor_id'', ''baseline_year'', ''target_year'', ''target_value'',
            ''target_unit'', ''datasource_id''] [v1, v2, v3, v4, v5, v6] ''actor_id'' = v1"
  "get_col [''actor_id'', ''baseline_year'', ''target_year'', ''target_value'',
            ''target_unit'', ''datasource_id''] [v1, v2, v3, v4, v5, v6] ''baseline_year'' = v2"
  "get_col [''actor_id'', ''baseline_year'', ''target_year'', ''target_value'',
            ''target_unit'', ''datasource_id''] [v1, v2, v3, v4, v5, v6] ''target_year'' = v3"
  "get_col [''actor_id'', ''baseline_year'', ''target_year'', ''target_value'',
            ''target_unit'', ''datasource_id''] [v1, v2, v3, v4, v5, v6] ''target_value'' = v4"
  "get_col [''actor_id'', ''baseline_year'', ''target_year'', ''target_value'',
            ''target_unit'', ''datasource_id''] [v1, v2, v3, v4, v5, v6] ''target_unit'' = v5"
  by (simp_all add: get_col_def)

lemma project_cols_out:
  "map (get_col [''actor_id'', ''baseline_year'', ''target_year'', ''target_value'',
            ''target_unit'', ''datasource_id''] [v1, v2, v3, v4, v5, v6]) cols_out
     = [v1, v2, v3, v4, v5]"
  by (simp add: get_col_def cols_out_def)

lemma get_col_cols_out_year:
  "get_col cols_out [v1, v2, v3, v4, v5] ''target_year'' = v3"
  by (simp add: get_col_def cols_out_def)

lemma map_cols_out:
  "map f cols_out = [f ''actor_id'', f ''baseline_year'', f ''target_year'', f ''target_value'',
     f ''target_unit'']"
  by (simp add: cols_out_def)

lemma get_target_frame:
  assumes t: "targets c a = Inr t"
    and ty: "''target_type'' \<in> set (columns t)"
    and cs: "list_all (\<lambda>k. k \<in> set (columns t))
       [''actor_id'', ''baseline_year'', ''target_year'', ''target_value'',
        ''target_unit'', ''datasource_id'']"
  shows "get_target c a y d = Some (drop_duplicates
     \<lparr> columns = cols_out,
       rows = map (\<lambda>(i, r). (i, map (get_col (columns t) r) cols_out))
         (filter (\<lambda>(i, r).
             cell_eq (get_col (columns t) r ''target_type'') (Str ''Absolute emission reduction'') \<and>
             cell_eq (get_col (columns t) r ''target_year'') (Num (PInt y)))
           (rows t)) \<rparr>)"
proof -
  let ?c6 = "[''actor_id'', ''baseline_year'', ''target_year'', ''target_value'',
        ''target_unit'', ''datasource_id'']"
  define rows1 where "rows1 = filter (\<lambda>(i, r).
      cell_eq (get_col (columns t) r ''target_type'') (Str ''Absolute emission reduction'')) (rows t)"
  define pt where "pt = \<lparr> columns = ?c6,
      rows = map (\<lambda>(i, r). (i, map (get_col (columns t) r) ?c6)) rows1 \<rparr>"
  define years where "years = map (\<lambda>(i, r). (i, get_col ?c6 r ''target_year'')) (rows pt)"
  define sel where "sel = filter (\<lambda>(i, v). cell_eq v (Num (PInt y))) years"
  have years_eq: "years = map (\<lambda>(i, r). (i, get_col (columns t) r ''target_year'')) rows1"
    unfolding years_def pt_def by (simp add: get_col_cols6 split_def)
  have "\<forall>(i, v) \<in> set sel. cell_eq v (Num (PInt y))" unfolding sel_def by auto
  from series_min_selection [OF this]
  obtain cl where cl: "series_min sel = Inr cl"
    and cl_eq: "\<And>v. cell_eq v cl \<longleftrightarrow> sel \<noteq> [] \<and> cell_eq v (Num (PInt y))"
    by blast
  have keep: "filter (\<lambda>(i, r). cell_eq (get_col ?c6 r ''target_year'') cl) (rows pt)
      = filter (\<lambda>(i, r). cell_eq (get_col ?c6 r ''target_year'') (Num (PInt y))) (rows pt)"
  proof (rule filter_cong [OF refl])
    fix x assume x: "x \<in> set (rows pt)"
    obtain i r where xr: "x = (i, r)" by (cases x)
    have "cell_eq (get_col ?c6 r ''target_year'') (Num (PInt y)) \<Longrightarrow> sel \<noteq> []"
    proof -
      assume "cell_eq (get_col ?c6 r ''target_year'') (Num (PInt y))"
      then have "(i, get_col ?c6 r ''target_year'') \<in> set sel"
        using x xr unfolding sel_def years_def by force
      then show "sel \<noteq> []" by auto
    qed
    then show "(case x of (i, r) \<Rightarrow> cell_eq (get_col ?c6 r ''target_year'') cl)
       = (case x of (i, r) \<Rightarrow> cell_eq (get_col ?c6 r ''target_year'') (Num (PInt y)))"
      using xr cl_eq by auto
  qed
  have final: "map (\<lambda>(i, r). (i, map (get_col ?c6 r) cols_out))
       (filter (\<lambda>(i, r). cell_eq (get_col ?c6 r ''target_year'') (Num (PInt y))) (rows pt))
     = map (\<lambda>(i, r). (i, map (get_col (columns t) r) cols_out))
         (filter (\<lambda>(i, r).
             cell_eq (get_col (columns t) r ''target_type'') (Str ''Absolute emission reduction'') \<and>
             cell_eq (get_col (columns t) r ''target_year'') (Num (PInt y)))
           (rows t))"
    unfolding pt_def rows1_def
    by (simp add: filter_map o_def split_def get_col_cols6 map_cols_out)
  have m1: "col_eq_mask t ''target_type'' (Str ''Absolute emission reduction'')
      = Inr (\<lambda>r. cell_eq (get_col (columns t) r ''target_type'') (Str ''Absolute emission reduction''))"
    using ty by (simp add: col_eq_mask_def)
  have s1: "select_columns (loc_rows t
        (\<lambda>r. cell_eq (get_col (columns t) r ''target_type'') (Str ''Absolute emission reduction'')))
      ?c6 = Inr pt"
    using cs by (simp add: select_columns_def loc_rows_def pt_def rows1_def)
  have s2: "select_series pt ''target_year'' = Inr years"
    by (simp add: select_series_def pt_def years_def)
  have m2: "col_eq_mask pt ''target_year'' cl
      = Inr (\<lambda>r. cell_eq (get_col ?c6 r ''target_year'') cl)"
    by (simp add: col_eq_mask_def pt_def)
  have s4: "select_columns (loc_rows pt (\<lambda>r. cell_eq (get_col ?c6 r ''target_year'') cl)) cols_out
      = Inr \<lparr> columns = cols_out,
              rows = map (\<lambda>(i, r). (i, map (get_col ?c6 r) cols_out))
                (filter (\<lambda>(i, r). cell_eq (get_col ?c6 r ''target_year'') cl) (rows pt)) \<rparr>"
    by (simp add: select_columns_def loc_rows_def pt_def cols_out_def)
  show ?thesis
    unfolding get_target_def
    by (simp add: t m1 s1 s2 sel_def [symmetric] cl m2 s4 keep final)
qed

lemma get_target_raises: "targets c a = Inl e \<Longrightarrow> get_target c a y d = None"
  by (simp add: get_target_def)

lemma get_target_Some:
  assumes "get_target c a y d = Some tbl"
  shows "\<exists>t. targets c a = Inr t \<and> ''target_type'' \<in> set (columns t) \<and>
     list_all (\<lambda>k. k \<in> set (columns t))
       [''actor_id'', ''baseline_year'', ''target_year'', ''target_value'',
        ''target_unit'', ''datasource_id''] \<and>
     tbl = drop_duplicates
       \<lparr> columns = cols_out,
         rows = map (\<lambda>(i, r). (i, map (get_col (columns t) r) cols_out))
           (filter (\<lambda>(i, r).
               cell_eq (get_col (columns t) r ''target_type'') (Str ''Absolute emission reduction'') \<and>
               cell_eq (get_col (columns t) r ''target_year'') (Num (PInt y)))
             (rows t)) \<rparr>"
proof (cases "targets c a")
  case (Inl e)
  then show ?thesis using assms by (simp add: get_target_def)
next
  case (Inr t)
  show ?thesis
  proof (cases "''target_type'' \<in> set (columns t)")
    case False
    then show ?thesis using assms Inr by (simp add: get_target_def col_eq_mask_def)
  next
    case ty: True
    show ?thesis
    proof (cases "list_all (\<lambda>k. k \<in> set (columns t))
       [''actor_id'', ''baseline_year'', ''target_year'', ''target_value'',
        ''target_unit'', ''datasource_id'']")
      case False
      then have "select_columns (loc_rows t
          (\<lambda>r. cell_eq (get_col (columns t) r ''target_type'') (Str ''Absolute emission reduction'')))
          [''actor_id'', ''baseline_year'', ''target_year'', ''target_value'',
           ''target_unit'', ''datasource_id''] = Inl KeyError"
        by (simp add: select_columns_def loc_rows_def)
      then show ?thesis using assms Inr ty by (simp add: get_target_def col_eq_mask_def)
    next
      case True
      from get_target_frame [OF Inr ty True, of y d] assms Inr ty True
      show ?thesis by simp
    qed
  qed
qed

lemma get_target_rows:
  assumes "get_target c a y d = Some tbl"
  shows "columns tbl = cols_out \<and> distinct (map snd (rows tbl)) \<and>
     (\<forall>(i, r) \<in> set (rows tbl).
        cell_eq (get_col (columns tbl) r ''target_year'') (Num (PInt y)) \<and>
        (\<exists>t s. targets c a = Inr t \<and> (i, s) \<in> set (rows t) \<and>
           cell_eq (get_col (columns t) s ''target_type'') (Str ''Absolute emission reduction'') \<and>
           r = map (get_col (columns t) s) cols_out))"
proof -
  from get_target_Some [OF assms] obtain t where t: "targets c a = Inr t"
    and tbl: "tbl = drop_duplicates
       \<lparr> columns = cols_out,
         rows = map (\<lambda>(i, r). (i, map (get_col (columns t) r) cols_out))
           (filter (\<lambda>(i, r).
               cell_eq (get_col (columns t) r ''target_type'') (Str ''Absolute emission reduction'') \<and>
               cell_eq (get_col (columns t) r ''target_year'') (Num (PInt y)))
             (rows t)) \<rparr>"
    by blast
  have cols: "columns tbl = cols_out" by (simp add: tbl drop_duplicates_def)
  have dist: "distinct (map snd (rows tbl))"
    by (simp add: tbl drop_duplicates_def drop_dups_distinct)
  have rows_sub: "set (rows tbl) \<subseteq> set (map (\<lambda>(i, r). (i, map (get_col (columns t) r) cols_out))
           (filter (\<lambda>(i, r).
               cell_eq (get_col (columns t) r ''target_type'') (Str ''Absolute emission reduction'') \<and>
               cell_eq (get_col (columns t) r ''target_year'') (Num (PInt y)))
             (rows t)))"
    unfolding tbl drop_duplicates_def by (simp only: dataframe.simps) (rule drop_dups_subset)
  have "cell_eq (get_col (columns tbl) r ''target_year'') (Num (PInt y)) \<and>
        (\<exists>t s. targets c a = Inr t \<and> (i, s) \<in> set (rows t) \<and>
           cell_eq (get_col (columns t) s ''target_type'') (Str ''Absolute emission reduction'') \<and>
           r = map (get_col (columns t) s) cols_out)"
    if "(i, r) \<in> set (rows tbl)" for i r
  proof -
    from that rows_sub obtain s where s: "(i, s) \<in> set (rows t)"
      "cell_eq (get_col (columns t) s ''target_type'') (Str ''Absolute emission reduction'')"
      "cell_eq (get_col (columns t) s ''target_year'') (Num (PInt y))"
      "r = map (get_col (columns t) s) cols_out"
      by auto
    have "get_col cols_out r ''target_year'' = get_col (columns t) s ''target_year''"
      unfolding s(4) by (simp add: map_cols_out get_col_cols_out_year)
    then show ?thesis using s t cols by auto
  qed
  then show ?thesis using cols dist by auto
qed

lemma get_target_empty:
  assumes "targets c a = Inr t" and "''target_type'' \<in> set (columns t)"
    and "list_all (\<lambda>k. k \<in> set (columns t))
       [''actor_id'', ''baseline_year'', ''target_year'', ''target_value'',
        ''target_unit'', ''datasource_id'']"
    and "\<forall>(i, r) \<in> set (rows t).
       \<not> (cell_eq (get_col (columns t) r ''target_type'') (Str ''Absolute emission reduction'') \<and>
          cell_eq (get_col (columns t) r ''target_year'') (Num (PInt y)))"
  shows "get_target c a y d = Some \<lparr> columns = cols_out, rows = [] \<rparr>"
proof -
  have "filter (\<lambda>(i, r).
       cell_eq (get_col (columns t) r ''target_type'') (Str ''Absolute emission reduction'') \<and>
       cell_eq (get_col (columns t) r ''target_year'') (Num (PInt y))) (rows t) = []"
    using assms(4) by (auto simp: filter_empty_conv)
  then show ?thesis
    using get_target_frame [OF assms(1-3), of y d] by (simp add: drop_duplicates_def)
qed

lemma get_col_name_actor:
  "get_col [''name'', ''actor_id''] [v1, v2] ''name'' = v1"
  "get_col [''name'', ''actor_id''] [v1, v2] ''actor_id'' = v2"
  by (simp_all add: get_col_def)

lemma actor_parts_raises:
  assumes "parts c a p = Inl e \<or>
     (\<exists>dfp. parts c a p = Inr dfp \<and> ''name'' \<in> set (columns dfp) \<and>
        ''actor_id'' \<in> set (columns dfp) \<and> search c a = Inl e)"
  shows "e = AttributeError \<longrightarrow> actor_parts c a p = (Inr None, [''ERROR: '' @ a @ '' not found''])"
    and "e = KeyError \<longrightarrow>
       actor_parts c a p = (Inr None, [a @ '' does not have any '' @ p @ '' types''])"
  using assms by (auto simp: actor_parts_def select_columns_def Let_def)

lemma actor_parts_missing_column:
  assumes "parts c a p = Inr dfp"
    and "''name'' \<notin> set (columns dfp) \<or> ''actor_id'' \<notin> set (columns dfp)"
  shows "actor_parts c a p = (Inr None, [a @ '' does not have any '' @ p @ '' types''])"
  using assms by (auto simp: actor_parts_def select_columns_def Let_def)

lemma actor_parts_success:
  assumes "parts c a p = Inr dfp" and "search c a = Inr dfs"
    and "''name'' \<in> set (columns dfp)" and "''actor_id'' \<in> set (columns dfp)"
    and "''name'' \<in> set (columns dfs)" and "''actor_id'' \<in> set (columns dfs)"
  shows "actor_parts c a p =
     (Inr (Some \<lparr> columns = [''name'', ''actor_id''],
         rows =
           map (\<lambda>(i, r). (i, [get_col (columns dfs) r ''name'', get_col (columns dfs) r ''actor_id'']))
             (filter (\<lambda>(i, r). cell_eq (get_col (columns dfs) r ''actor_id'') (Str a)) (rows dfs))
           @ zip (map int [0 ..< length (rows dfp)])
               (map (\<lambda>(i, r). [get_col (columns dfp) r ''name'', get_col (columns dfp) r ''actor_id''])
                  (rows dfp)) \<rparr>), [])"
proof -
  have z: "map (\<lambda>p. (fst p, [get_col [''name'', ''actor_id''] (snd p) ''name'',
                           get_col [''name'', ''actor_id''] (snd p) ''actor_id'']))
        (zip js (map (\<lambda>x. [f x, g x]) xs))
      = zip js (map (\<lambda>x. [f x, g x]) xs)" for js :: "int list" and f g
        and xs :: "(int \<times> cell list) list"
  proof (induction xs arbitrary: js)
    case Nil
    then show ?case by simp
  next
    case (Cons x xs)
    then show ?case by (cases js) (simp_all add: get_col_name_actor)
  qed
  show ?thesis
    using assms
    by (simp add: actor_parts_def select_columns_def Let_def col_eq_mask_def loc_rows_def
        reset_index_def pd_concat_def o_def split_def get_col_name_actor z)
qed

section \<open>The claims on linear_equation\<close>

text \<open>
  C1 (corrected). Whatever numbers it is given, a result of \<^verbatim>\<open>linear_equation\<close> is
  built by the operations of the specification in their order:
  \<open>target_emissions = e * (1 - p / 100)\<close>,
  \<open>slope = (target_emissions - e) / (t - b)\<close>,
  \<open>intercept = e - slope * b\<close>, and its equation maps a year to
  \<open>slope * year + intercept\<close>, each operation being Python's on those numbers. For float
  emissions and percentage and int years \<open>t \<noteq> b\<close> that convert to float, it does return,
  with every operation rounded to binary64. On \<open>(2020, 100, 50, 2030)\<close> the slope is
  \<open>-5\<close>, the target emissions \<open>50\<close>, the equation at \<open>2025\<close> gives \<open>75\<close>, and the
  intercept is \<open>10200\<close> (not \<open>10100\<close>).
\<close>

theorem linear_equation_spec:
  "(linear_equation b e p t = Inr r \<longrightarrow>
      (\<exists>td rem de sb.
         py_truediv p (PInt 100) = Inr td \<and> py_sub (PInt 1) td = Inr rem \<and>
         py_mul e rem = Inr (target_emissions r) \<and>
         py_sub (target_emissions r) e = Inr de \<and>
         py_truediv de (PInt (t - b)) = Inr (slope r) \<and>
         py_mul (slope r) (PInt b) = Inr sb \<and>
         py_sub e sb = Inr (intercept r) \<and>
         equation r = (\<lambda>YEAR. bindE (py_mul (slope r) YEAR) (\<lambda>sy. py_add sy (intercept r))))) \<and>
   (t \<noteq> b \<and> to_float (PInt b) = Inr fb \<and> to_float (PInt (t - b)) = Inr fd \<longrightarrow>
      (\<exists>r'. linear_equation b (PFloat fe) (PFloat fp) t = Inr r' \<and>
         target_emissions r' = PFloat (fmul fe (fsub (Finite 1) (fdiv fp (Finite 100)))) \<and>
         slope r' =
           PFloat (fdiv (fsub (fmul fe (fsub (Finite 1) (fdiv fp (Finite 100)))) fe) fd) \<and>
         intercept r' = PFloat (fsub fe (fmul
           (fdiv (fsub (fmul fe (fsub (Finite 1) (fdiv fp (Finite 100)))) fe) fd) fb)))) \<and>
   (\<exists>r0. linear_equation 2020 (PInt 100) (PInt 50) 2030 = Inr r0 \<and>
      slope r0 = PFloat (Finite (- 5)) \<and> intercept r0 = PFloat (Finite 10200) \<and>
      target_emissions r0 = PFloat (Finite 50) \<and>
      equation r0 (PInt 2025) = Inr (PFloat (Finite 75)))"
  using linear_equation_fields [of b e p t r] linear_equation_floats [of t b fb fd fe fp]
    linear_equation_example
  by blast

text \<open>
  The theorem at \<open>(2020, 100.0, 50.0, 2030)\<close>: the years convert, the call returns, and
  the record the call on \<open>(2020, 100, 50, 2030)\<close> returns is built by the operations.
\<close>

theorem linear_equation_spec_witness:
  "(2030::int) \<noteq> 2020 \<and> to_float (PInt 2020) = Inr (Finite 2020) \<and>
   to_float (PInt (2030 - 2020)) = Inr (Finite 10) \<and>
   (\<exists>r'. linear_equation 2020 (PFloat (Finite 100)) (PFloat (Finite 50)) 2030 = Inr r' \<and>
      target_emissions r' = PFloat (Finite 50) \<and> slope r' = PFloat (Finite (- 5)) \<and>
      intercept r' = PFloat (Finite 10200)) \<and>
   (\<exists>r0 de. linear_equation 2020 (PInt 100) (PInt 50) 2030 = Inr r0 \<and>
      py_sub (target_emissions r0) (PInt 100) = Inr de \<and>
      py_truediv de (PInt (2030 - 2020)) = Inr (slope r0))"
proof -
  obtain r0 where r0: "linear_equation 2020 (PInt 100) (PInt 50) 2030 = Inr r0"
    using linear_equation_example by blast
  have h: "(2030::int) \<noteq> 2020 \<and> to_float (PInt 2020) = Inr (Finite 2020) \<and>
      to_float (PInt (2030 - 2020)) = Inr (Finite 10)"
    by (simp add: eval_defs)
  have "\<exists>de. py_sub (target_emissions r0) (PInt 100) = Inr de \<and>
      py_truediv de (PInt (2030 - 2020)) = Inr (slope r0)"
    using r0 linear_equation_spec [of 2020 "PInt 100" "PInt 50" 2030 r0] by blast
  moreover have "\<exists>r'. linear_equation 2020 (PFloat (Finite 100)) (PFloat (Finite 50)) 2030 = Inr r' \<and>
      target_emissions r' = PFloat (Finite 50) \<and> slope r' = PFloat (Finite (- 5)) \<and>
      intercept r' = PFloat (Finite 10200)"
    using h linear_equation_spec [of 2020 "PInt 100" "PInt 50" 2030 r0 "Finite 2020"
        "Finite 10" "Finite 100" "Finite 50"]
    by (simp add: eval_defs)
  ultimately show ?thesis using h r0 by blast
qed

text \<open>
  The claim's instance fails: on \<open>(2020, 100, 50, 2030)\<close> the intercept is \<open>10200\<close>,
  which is not \<open>10100\<close>.
\<close>

theorem linear_equation_intercept_counterexample:
  "\<exists>r. linear_equation 2020 (PInt 100) (PInt 50) 2030 = Inr r \<and>
     intercept r = PFloat (Finite 10200) \<and> \<not> py_eq (intercept r) (PInt 10100)"
  by (simp add: linear_equation_def eval_defs py_eq_def)




section \<open>The claims on scaled_emissions\<close>

text \<open>
  C3 (corrected). Evaluating the fitted line at the baseline year gives the baseline
  emissions exactly where the arithmetic is exact: for a Fraction percentage with int or
  Fraction emissions and int years \<open>t \<noteq> b\<close>, \<^verbatim>\<open>scaled_emissions(b, e, p, t, b) == e\<close>.
  For a binary64 value \<open>e\<close> the result is \<open>e\<close> exactly whenever the intercept
  \<open>e - slope * b\<close> is computed without rounding, as it is in
  \<^verbatim>\<open>scaled_emissions(2020, 100, 50, 2030, 2020) == 100.0\<close>; otherwise it is \<open>e\<close> up to
  rounding only.
\<close>

theorem scaled_emissions_at_baseline:
  "(\<not> is_float e \<and> t \<noteq> b \<longrightarrow>
      scaled_emissions b e (PFrac q) t b = Inr (PFrac (exact_val e))) \<and>
   (linear_equation b (PFloat (Finite x)) p t = Inr r \<and> round64 x = Finite x \<and>
    py_mul (slope r) (PInt b) = Inr (PFloat (Finite sb)) \<and>
    intercept r = PFloat (Finite (x - sb)) \<longrightarrow>
      scaled_emissions b (PFloat (Finite x)) p t b = Inr (PFloat (Finite x))) \<and>
   scaled_emissions 2020 (PInt 100) (PInt 50) 2030 2020 = Inr (PFloat (Finite 100))"
  using scaled_exact_baseline [of e t b q] scaled_float_baseline [of b x p t r sb]
    scaled_example_baseline
  by blast

text \<open>
  The theorem at \<open>(2020, 100, Fraction(50), 2030)\<close> and at \<open>(2020, 100.0, 50, 2030)\<close>,
  where the intercept \<open>100 - (-10100) = 10200\<close> is exact.
\<close>

theorem scaled_emissions_at_baseline_witness:
  "\<not> is_float (PInt 100) \<and> (2030::int) \<noteq> 2020 \<and>
   scaled_emissions 2020 (PInt 100) (PFrac 50) 2030 2020 = Inr (PFrac 100) \<and>
   (\<exists>r. linear_equation 2020 (PFloat (Finite 100)) (PInt 50) 2030 = Inr r \<and>
      round64 100 = Finite 100 \<and>
      py_mul (slope r) (PInt 2020) = Inr (PFloat (Finite (- 10100))) \<and>
      intercept r = PFloat (Finite (100 - (- 10100)))) \<and>
   scaled_emissions 2020 (PFloat (Finite 100)) (PInt 50) 2030 2020 = Inr (PFloat (Finite 100))"
proof -
  have h1: "\<not> is_float (PInt 100) \<and> (2030::int) \<noteq> 2020" by simp
  obtain r where r: "linear_equation 2020 (PFloat (Finite 100)) (PInt 50) 2030 = Inr r"
    and h2: "round64 100 = Finite 100"
      "py_mul (slope r) (PInt 2020) = Inr (PFloat (Finite (- 10100)))"
      "intercept r = PFloat (Finite (100 - (- 10100)))"
    by (simp add: linear_equation_def eval_defs)
  have "scaled_emissions 2020 (PInt 100) (PFrac 50) 2030 2020 = Inr (PFrac 100)"
    using h1 scaled_emissions_at_baseline [of "PInt 100" 2030 2020 50] by simp
  moreover have "scaled_emissions 2020 (PFloat (Finite 100)) (PInt 50) 2030 2020
      = Inr (PFloat (Finite 100))"
    using r h2 scaled_emissions_at_baseline [of "PInt 100" 2030 2020 50 100 "PInt 50" r "- 10100"]
    by blast
  ultimately show ?thesis using h1 r h2 by blast
qed

text \<open>
  The claim fails for floats: \<open>100.1\<close> is the binary64 value
  \<open>3521955646092083 / 2\<^sup>4\<^sup>5\<close>, and \<^verbatim>\<open>scaled_emissions(2020, 100.1, 50, 2030, 2020)\<close> is
  \<open>55030556970189 / 2\<^sup>3\<^sup>9\<close>, that is \<open>100.10000000000036\<close>.
\<close>

theorem scaled_emissions_at_baseline_counterexample:
  "round64 (1001 / 10) = Finite (3521955646092083 / 35184372088832) \<and>
   scaled_emissions 2020 (PFloat (Finite (3521955646092083 / 35184372088832))) (PInt 50) 2030 2020
     = Inr (PFloat (Finite (55030556970189 / 549755813888))) \<and>
   \<not> py_eq (PFloat (Finite (55030556970189 / 549755813888)))
            (PFloat (Finite (3521955646092083 / 35184372088832)))"
  by (simp add: scaled_emissions_def linear_equation_def eval_defs py_eq_def)

text \<open>
  C4 (corrected). Evaluating the fitted line at the target year gives the target emissions
  \<open>e * (1 - p / 100)\<close> of \<^verbatim>\<open>linear_equation\<close> exactly where the arithmetic is exact: for
  a Fraction percentage with int or Fraction emissions and int years \<open>t \<noteq> b\<close>. For floats
  it does so up to rounding only; \<^verbatim>\<open>scaled_emissions(2020, 100, 50, 2030, 2030) == 50.0\<close>
  is exact.
\<close>

theorem scaled_emissions_at_target:
  "(\<not> is_float e \<and> t \<noteq> b \<longrightarrow>
      scaled_emissions b e (PFrac q) t t = Inr (PFrac (exact_val e * (1 - q / 100))) \<and>
      (\<exists>r. linear_equation b e (PFrac q) t = Inr r \<and>
         target_emissions r = PFrac (exact_val e * (1 - q / 100)))) \<and>
   scaled_emissions 2020 (PInt 100) (PInt 50) 2030 2030 = Inr (PFloat (Finite 50))"
proof -
  have "\<exists>r. linear_equation b e (PFrac q) t = Inr r \<and>
         target_emissions r = PFrac (exact_val e * (1 - q / 100))"
    if "\<not> is_float e" "t \<noteq> b"
    using that by (cases e) (simp_all add: linear_equation_def)
  then show ?thesis
    using scaled_exact_target [of e t b q] scaled_example_target by blast
qed

text \<open>The theorem at \<open>(2020, 100, Fraction(50), 2030)\<close>.\<close>

theorem scaled_emissions_at_target_witness:
  "\<not> is_float (PInt 100) \<and> (2030::int) \<noteq> 2020 \<and>
   scaled_emissions 2020 (PInt 100) (PFrac 50) 2030 2030 = Inr (PFrac 50)"
  using scaled_emissions_at_target [of "PInt 100" 2030 2020 50] by simp

text \<open>
  The claim fails for ints and floats:
  \<^verbatim>\<open>scaled_emissions(2019, 12345, 43, 2030, 2030)\<close> is \<open>7036.649999999907\<close>, the target
  emissions of \<^verbatim>\<open>linear_equation\<close> are \<open>7036.650000000001\<close>, and the exact product is
  \<open>7036.65\<close>.
\<close>

theorem scaled_emissions_at_target_counterexample:
  "scaled_emissions 2019 (PInt 12345) (PInt 43) 2030 2030
     = Inr (PFloat (Finite (15111090811699 / 2147483648))) \<and>
   (\<exists>r. linear_equation 2019 (PInt 12345) (PInt 43) 2030 = Inr r \<and>
      target_emissions r = PFloat (Finite (7736878495589991 / 1099511627776)) \<and>
      \<not> py_eq (PFloat (Finite (15111090811699 / 2147483648))) (target_emissions r)) \<and>
   \<not> py_eq (PFloat (Finite (15111090811699 / 2147483648))) (PFrac (12345 * (1 - 43 / 100)))"
  by (simp add: scaled_emissions_def linear_equation_def eval_defs py_eq_def)

section \<open>The claims on ipcc_range\<close>

text \<open>
  C5 (corrected). When the baseline filter (the actor, when one is given, then the baseline
  year) matches exactly one row, whose total emissions are the number \<open>B\<close>,
  \<^verbatim>\<open>ipcc_range\<close> returns the dictionary of the baseline year, the two target values and
  the two target emissions \<open>B * (1 - target_value / 100)\<close>, each operation being Python's
  (binary64 for floats, where it always returns). For the one-row table
  \<open>{year: 2019, total_emissions: 200}\<close> and the defaults 43 and 27 the target emissions are
  \<open>114.00000000000001\<close> (the binary64 product of \<open>200\<close> and \<open>1 - 0.43\<close>, not \<open>114\<close>)
  and \<open>146.0\<close>.
\<close>

theorem ipcc_range_targets:
  "(baseline_matches df a y = [(i, r)] \<and> get_col (columns df) r ''total_emissions'' = Num B \<longrightarrow>
      ipcc_range df a y tv15 tv20 =
        bindE (py_truediv tv15 (PInt 100)) (\<lambda>d15.
        bindE (py_sub (PInt 1) d15) (\<lambda>r15.
        bindE (py_mul B r15) (\<lambda>target_15.
        bindE (py_truediv tv20 (PInt 100)) (\<lambda>d20.
        bindE (py_sub (PInt 1) d20) (\<lambda>r20.
        bindE (py_mul B r20) (\<lambda>target_20.
        Inr [(''baseline_year'', PInt y),
             (''target_value_1.5C'', tv15),
             (''target_emissions_1.5C'', target_15),
             (''target_value_2.0C'', tv20),
             (''target_emissions_2.0C'', target_20)]))))))) \<and>
   (baseline_matches df a y = [(i, r)] \<and>
    get_col (columns df) r ''total_emissions'' = Num (PFloat fB) \<longrightarrow>
      ipcc_range df a y (PFloat v15) (PFloat v20) =
        Inr [(''baseline_year'', PInt y),
             (''target_value_1.5C'', PFloat v15),
             (''target_emissions_1.5C'',
                PFloat (fmul fB (fsub (Finite 1) (fdiv v15 (Finite 100))))),
             (''target_value_2.0C'', PFloat v20),
             (''target_emissions_2.0C'',
                PFloat (fmul fB (fsub (Finite 1) (fdiv v20 (Finite 100)))))]) \<and>
   ipcc_range \<lparr> columns = [''year'', ''total_emissions''],
                rows = [(0, [Num (PInt 2019), Num (PInt 200)])] \<rparr> None 2019 (PInt 43) (PInt 27) =
     Inr [(''baseline_year'', PInt 2019),
          (''target_value_1.5C'', PInt 43),
          (''target_emissions_1.5C'', PFloat (Finite (8022036836253697 / 70368744177664))),
          (''target_value_2.0C'', PInt 27),
          (''target_emissions_2.0C'', PFloat (Finite 146))]"
  using ipcc_range_unique [of df a y i r B tv15 tv20] ipcc_range_floats [of df a y i r fB v15 v20]
    ipcc_range_example
  by blast

text \<open>
  The theorem at a two-row table whose row for 2019 has total emissions \<open>200.0\<close>, with
  the target values \<open>50.0\<close> and \<open>25.0\<close>.
\<close>

theorem ipcc_range_targets_witness:
  "baseline_matches \<lparr> columns = [''year'', ''total_emissions''],
       rows = [(0, [Num (PInt 2018), Num (PFloat (Finite 180))]),
               (1, [Num (PInt 2019), Num (PFloat (Finite 200))])] \<rparr> None 2019
     = [(1, [Num (PInt 2019), Num (PFloat (Finite 200))])] \<and>
   get_col [''year'', ''total_emissions''] [Num (PInt 2019), Num (PFloat (Finite 200))]
     ''total_emissions'' = Num (PFloat (Finite 200)) \<and>
   ipcc_range \<lparr> columns = [''year'', ''total_emissions''],
       rows = [(0, [Num (PInt 2018), Num (PFloat (Finite 180))]),
               (1, [Num (PInt 2019), Num (PFloat (Finite 200))])] \<rparr> None 2019
       (PFloat (Finite 50)) (PFloat (Finite 25)) =
     Inr [(''baseline_year'', PInt 2019),
          (''target_value_1.5C'', PFloat (Finite 50)),
          (''target_emissions_1.5C'', PFloat (Finite 100)),
          (''target_value_2.0C'', PFloat (Finite 25)),
          (''target_emissions_2.0C'', PFloat (Finite 150))]"
proof -
  let ?df = "\<lparr> columns = [''year'', ''total_emissions''],
       rows = [(0, [Num (PInt 2018), Num (PFloat (Finite 180))]),
               (1, [Num (PInt 2019), Num (PFloat (Finite 200))])] \<rparr>"
  have h: "baseline_matches ?df None 2019 = [(1, [Num (PInt 2019), Num (PFloat (Finite 200))])] \<and>
      get_col (columns ?df) [Num (PInt 2019), Num (PFloat (Finite 200))] ''total_emissions''
        = Num (PFloat (Finite 200))"
    by (simp add: baseline_matches_def get_col_def py_eq_def)
  have v: "fmul (Finite 200) (fsub (Finite 1) (fdiv (Finite 50) (Finite 100))) = Finite 100 \<and>
      fmul (Finite 200) (fsub (Finite 1) (fdiv (Finite 25) (Finite 100))) = Finite 150"
    by (simp add: eval_defs)
  show ?thesis
    using h v ipcc_range_targets [of ?df None 2019 1 "[Num (PInt 2019), Num (PFloat (Finite 200))]"
        "PFloat (Finite 200)" "PFloat (Finite 50)" "PFloat (Finite 25)" "Finite 200"
        "Finite 50" "Finite 25"]
    by (simp add: eval_defs)
qed

text \<open>
  The claim's instance fails: the 1.5C target emissions of the one-row table are
  \<open>8022036836253697 / 2\<^sup>4\<^sup>6\<close>, the binary64 value above \<open>114\<close>.
\<close>

theorem ipcc_range_example_counterexample:
  "\<exists>d x. ipcc_range \<lparr> columns = [''year'', ''total_emissions''],
                rows = [(0, [Num (PInt 2019), Num (PInt 200)])] \<rparr> None 2019 (PInt 43) (PInt 27)
            = Inr d \<and>
     map_of d ''target_emissions_1.5C'' = Some x \<and>
     x = PFloat (Finite (8022036836253697 / 70368744177664)) \<and> \<not> py_eq x (PInt 114)"
  by (simp add: ipcc_range_example py_eq_def)

text \<open>
  C6 (confirmed). When no row or more than one row matches the baseline filter,
  \<^verbatim>\<open>ipcc_range\<close> raises and returns no dictionary: the \<^verbatim>\<open>ValueError\<close> of
  \<^verbatim>\<open>item()\<close> when the table has the columns the filter reads, a \<^verbatim>\<open>KeyError\<close>
  otherwise.
\<close>

theorem ipcc_range_no_single_baseline:
  "length (baseline_matches df a y) \<noteq> 1 \<longrightarrow>
     (ipcc_range df a y tv15 tv20 = Inl ValueError \<or> ipcc_range df a y tv15 tv20 = Inl KeyError) \<and>
     (''year'' \<in> set (columns df) \<and> ''total_emissions'' \<in> set (columns df) \<and>
      (a \<noteq> None \<longrightarrow> ''actor_id'' \<in> set (columns df)) \<longrightarrow>
        ipcc_range df a y tv15 tv20 = Inl ValueError)"
  using ipcc_range_ambiguous [of df a y tv15 tv20] ipcc_range_missing [of df a y tv15 tv20]
  by blast

text \<open>The theorem at a table with no rows and at a table with two rows for the actor and year.\<close>

theorem ipcc_range_no_single_baseline_witness:
  "length (baseline_matches \<lparr> columns = [''year'', ''total_emissions''], rows = [] \<rparr> None 2019) \<noteq> 1 \<and>
   ipcc_range \<lparr> columns = [''year'', ''total_emissions''], rows = [] \<rparr> None 2019
     (PInt 43) (PInt 27) = Inl ValueError \<and>
   length (baseline_matches \<lparr> columns = [''actor_id'', ''year'', ''total_emissions''],
       rows = [(0, [Str ''CA'', Num (PInt 2019), Num (PInt 200)]),
               (1, [Str ''CA'', Num (PInt 2019), Num (PInt 210)])] \<rparr> (Some ''CA'') 2019) \<noteq> 1 \<and>
   ipcc_range \<lparr> columns = [''actor_id'', ''year'', ''total_emissions''],
       rows = [(0, [Str ''CA'', Num (PInt 2019), Num (PInt 200)]),
               (1, [Str ''CA'', Num (PInt 2019), Num (PInt 210)])] \<rparr> (Some ''CA'') 2019
     (PInt 43) (PInt 27) = Inl ValueError"
proof -
  let ?e = "\<lparr> columns = [''year'', ''total_emissions''], rows = [] \<rparr>"
  let ?d = "\<lparr> columns = [''actor_id'', ''year'', ''total_emissions''],
       rows = [(0, [Str ''CA'', Num (PInt 2019), Num (PInt 200)]),
               (1, [Str ''CA'', Num (PInt 2019), Num (PInt 210)])] \<rparr>"
  have h1: "length (baseline_matches ?e None 2019) \<noteq> 1"
    by (simp add: baseline_matches_def)
  have h2: "length (baseline_matches ?d (Some ''CA'') 2019) \<noteq> 1"
    by (simp add: baseline_matches_def get_col_def py_eq_def)
  have "ipcc_range ?e None 2019 (PInt 43) (PInt 27) = Inl ValueError"
    using h1 ipcc_range_no_single_baseline [of ?e None 2019 "PInt 43" "PInt 27"] by simp
  moreover have "ipcc_range ?d (Some ''CA'') 2019 (PInt 43) (PInt 27) = Inl ValueError"
    using h2 ipcc_range_no_single_baseline [of ?d "Some ''CA''" 2019 "PInt 43" "PInt 27"] by simp
  ultimately show ?thesis using h1 h2 by blast
qed

section \<open>The claim on get_emissions\<close>



section \<open>The claims on get_target\<close>

text \<open>
  C7 (confirmed). Every row of a table \<^verbatim>\<open>get_target\<close> returns is the projection, to the
  five output columns, of a record of the client whose target type is
  \<^verbatim>\<open>Absolute emission reduction\<close>, and its target year equals the requested year; records
  with another target year are dropped. No two rows of the table have the same cells.
\<close>

theorem get_target_exact_year:
  "get_target c a y d = Some tbl \<longrightarrow>
     columns tbl = cols_out \<and> distinct (map snd (rows tbl)) \<and>
     (\<forall>(i, r) \<in> set (rows tbl).
        cell_eq (get_col (columns tbl) r ''target_year'') (Num (PInt y)) \<and>
        (\<exists>t s. targets c a = Inr t \<and> (i, s) \<in> set (rows t) \<and>
           cell_eq (get_col (columns t) s ''target_type'') (Str ''Absolute emission reduction'') \<and>
           r = map (get_col (columns t) s) cols_out))"
  using get_target_rows [of c a y d tbl] by blast

text \<open>
  The theorem at a client with two records for 2030 that differ in the data source only, one
  record for 2050 and one of another target type: one row is returned.
\<close>

theorem get_target_exact_year_witness:
  "get_target
     \<lparr> jupyter = Inr (), emissions = (\<lambda>a d. Inl ValueError),
       parts = (\<lambda>a p. Inl AttributeError), search = (\<lambda>q. Inl AttributeError),
       targets = (\<lambda>a. Inr
         \<lparr> columns = [''actor_id'', ''target_type'', ''baseline_year'', ''target_year'',
                      ''target_value'', ''target_unit'', ''datasource_id''],
           rows =
             [(0, [Str a, Str ''Absolute emission reduction'', Num (PInt 2005), Num (PInt 2030),
                   Num (PInt 40), Str ''percent'', Str ''A'']),
              (1, [Str a, Str ''Absolute emission reduction'', Num (PInt 2005), Num (PInt 2030),
                   Num (PInt 40), Str ''percent'', Str ''B'']),
              (2, [Str a, Str ''Absolute emission reduction'', Num (PInt 2005), Num (PInt 2050),
                   Num (PInt 80), Str ''percent'', Str ''A'']),
              (3, [Str a, Str ''Net zero'', Num (PInt 2005), Num (PInt 2030),
                   Num (PInt 100), Str ''percent'', Str ''A''])] \<rparr>) \<rparr>
     ''CA'' 2030 None
   = Some \<lparr> columns = cols_out,
            rows = [(0, [Str ''CA'', Num (PInt 2005), Num (PInt 2030), Num (PInt 40),
                         Str ''percent''])] \<rparr> \<and>
   distinct (map snd [(0 :: int, [Str ''CA'', Num (PInt 2005), Num (PInt 2030), Num (PInt 40),
                         Str ''percent''])]) \<and>
   cell_eq (get_col cols_out [Str ''CA'', Num (PInt 2005), Num (PInt 2030), Num (PInt 40),
                         Str ''percent''] ''target_year'') (Num (PInt 2030))"
proof -
  let ?t = "\<lambda>a. \<lparr> columns = [''actor_id'', ''target_type'', ''baseline_year'', ''target_year'',
                      ''target_value'', ''target_unit'', ''datasource_id''],
           rows =
             [(0, [Str a, Str ''Absolute emission reduction'', Num (PInt 2005), Num (PInt 2030),
                   Num (PInt 40), Str ''percent'', Str ''A'']),
              (1, [Str a, Str ''Absolute emission reduction'', Num (PInt 2005), Num (PInt 2030),
                   Num (PInt 40), Str ''percent'', Str ''B'']),
              (2, [Str a, Str ''Absolute emission reduction'', Num (PInt 2005), Num (PInt 2050),
                   Num (PInt 80), Str ''percent'', Str ''A'']),
              (3, [Str a, Str ''Net zero'', Num (PInt 2005), Num (PInt 2030),
                   Num (PInt 100), Str ''percent'', Str ''A''])] \<rparr>"
  let ?c = "\<lparr> jupyter = Inr (), emissions = (\<lambda>a d. Inl ValueError),
       parts = (\<lambda>a p. Inl AttributeError), search = (\<lambda>q. Inl AttributeError),
       targets = (\<lambda>a. Inr (?t a)) \<rparr>"
  let ?tbl = "\<lparr> columns = cols_out,
            rows = [(0, [Str ''CA'', Num (PInt 2005), Num (PInt 2030), Num (PInt 40),
                         Str ''percent''])] \<rparr>"
  have h: "get_target ?c ''CA'' 2030 None = Some ?tbl"
    by (subst get_target_frame [where t = "?t ''CA''"])
       (simp_all add: get_col_def py_eq_def cols_out_def drop_duplicates_def)
  show ?thesis
    using h get_target_exact_year [of ?c "''CA''" 2030 None ?tbl]
    by (simp add: get_col_def cols_out_def py_eq_def)
qed

text \<open>
  C10 (confirmed). When the client returns a table with the columns the pipeline reads and no
  \<^verbatim>\<open>Absolute emission reduction\<close> record has the requested target year,
  \<^verbatim>\<open>get_target\<close> returns the table with the five output columns and no rows, not
  \<^verbatim>\<open>None\<close>; when the client raises it returns \<^verbatim>\<open>None\<close>.
\<close>

theorem get_target_no_match:
  "(targets c a = Inr t \<and> ''target_type'' \<in> set (columns t) \<and>
    list_all (\<lambda>k. k \<in> set (columns t))
      [''actor_id'', ''baseline_year'', ''target_year'', ''target_value'',
       ''target_unit'', ''datasource_id''] \<and>
    (\<forall>(i, r) \<in> set (rows t).
       \<not> (cell_eq (get_col (columns t) r ''target_type'') (Str ''Absolute emission reduction'') \<and>
          cell_eq (get_col (columns t) r ''target_year'') (Num (PInt y))))
    \<longrightarrow> get_target c a y d = Some \<lparr> columns = cols_out, rows = [] \<rparr>) \<and>
   (targets c a = Inl e \<longrightarrow> get_target c a y d = None)"
  using get_target_empty [of c a t y d] get_target_raises [of c a e y d] by blast

text \<open>
  The theorem at a client whose records are for 2050 or of another target type, and at a
  client that raises.
\<close>

theorem get_target_no_match_witness:
  "get_target
     \<lparr> jupyter = Inr (), emissions = (\<lambda>a d. Inl ValueError),
       parts = (\<lambda>a p. Inl AttributeError), search = (\<lambda>q. Inl AttributeError),
       targets = (\<lambda>a. Inr
         \<lparr> columns = [''actor_id'', ''target_type'', ''baseline_year'', ''target_year'',
                      ''target_value'', ''target_unit'', ''datasource_id''],
           rows =
             [(0, [Str a, Str ''Absolute emission reduction'', Num (PInt 2005), Num (PInt 2050),
                   Num (PInt 80), Str ''percent'', Str ''A'']),
              (1, [Str a, Str ''Net zero'', Num (PInt 2005), Num (PInt 2030),
                   Num (PInt 100), Str ''percent'', Str ''A''])] \<rparr>) \<rparr>
     ''CA'' 2030 None
   = Some \<lparr> columns = cols_out, rows = [] \<rparr> \<and>
   get_target
     \<lparr> jupyter = Inr (), emissions = (\<lambda>a d. Inl ValueError),
       parts = (\<lambda>a p. Inl AttributeError), search = (\<lambda>q. Inl AttributeError),
       targets = (\<lambda>a. Inl (OtherError ''ConnectionError'')) \<rparr>
     ''CA'' 2030 None = None"
proof -
  let ?t = "\<lambda>a. \<lparr> columns = [''actor_id'', ''target_type'', ''baseline_year'', ''target_year'',
                      ''target_value'', ''target_unit'', ''datasource_id''],
           rows =
             [(0, [Str a, Str ''Absolute emission reduction'', Num (PInt 2005), Num (PInt 2050),
                   Num (PInt 80), Str ''percent'', Str ''A'']),
              (1, [Str a, Str ''Net zero'', Num (PInt 2005), Num (PInt 2030),
                   Num (PInt 100), Str ''percent'', Str ''A''])] \<rparr>"
  let ?c = "\<lparr> jupyter = Inr (), emissions = (\<lambda>a d. Inl ValueError),
       parts = (\<lambda>a p. Inl AttributeError), search = (\<lambda>q. Inl AttributeError),
       targets = (\<lambda>a. Inr (?t a)) \<rparr>"
  let ?c' = "\<lparr> jupyter = Inr (), emissions = (\<lambda>a d. Inl ValueError),
       parts = (\<lambda>a p. Inl AttributeError), search = (\<lambda>q. Inl AttributeError),
       targets = (\<lambda>a. Inl (OtherError ''ConnectionError'')) \<rparr>"
  have "get_target ?c ''CA'' 2030 None = Some \<lparr> columns = cols_out, rows = [] \<rparr>"
    using get_target_no_match [of ?c "''CA''" "?t ''CA''" 2030 None]
    by (simp add: get_col_def py_eq_def)
  moreover have "get_target ?c' ''CA'' 2030 None = None"
    using get_target_no_match [of ?c' "''CA''" _ 2030 None "OtherError ''ConnectionError''"]
    by simp
  ultimately show ?thesis by blast
qed

section \<open>The claim on actor_parts\<close>

text \<open>
  C9 (confirmed). When the call for the parts, or the search after it, raises an
  \<^verbatim>\<open>AttributeError\<close> (actor not found) or a \<^verbatim>\<open>KeyError\<close> (no such part type),
  \<^verbatim>\<open>actor_parts\<close> prints its message and returns \<^verbatim>\<open>None\<close>: no exception leaves it.
  When both calls return tables with the columns \<open>name\<close> and \<open>actor_id\<close>, it returns the
  rows of the search whose actor id is the requested one, followed by the rows of the parts
  with their index reset, over these two columns.
\<close>

theorem actor_parts_not_found:
  "((parts c a p = Inl e \<or>
      (\<exists>dfp. parts c a p = Inr dfp \<and> ''name'' \<in> set (columns dfp) \<and>
         ''actor_id'' \<in> set (columns dfp) \<and> search c a = Inl e)) \<longrightarrow>
      (e = AttributeError \<longrightarrow>
         actor_parts c a p = (Inr None, [''ERROR: '' @ a @ '' not found''])) \<and>
      (e = KeyError \<longrightarrow>
         actor_parts c a p = (Inr None, [a @ '' does not have any '' @ p @ '' types'']))) \<and>
   (parts c a p = Inr dfp \<and> search c a = Inr dfs \<and>
    ''name'' \<in> set (columns dfp) \<and> ''actor_id'' \<in> set (columns dfp) \<and>
    ''name'' \<in> set (columns dfs) \<and> ''actor_id'' \<in> set (columns dfs) \<longrightarrow>
      actor_parts c a p =
        (Inr (Some \<lparr> columns = [''name'', ''actor_id''],
           rows =
             map (\<lambda>(i, r). (i, [get_col (columns dfs) r ''name'',
                                 get_col (columns dfs) r ''actor_id'']))
               (filter (\<lambda>(i, r). cell_eq (get_col (columns dfs) r ''actor_id'') (Str a)) (rows dfs))
             @ zip (map int [0 ..< length (rows dfp)])
                 (map (\<lambda>(i, r). [get_col (columns dfp) r ''name'',
                                  get_col (columns dfp) r ''actor_id''])
                    (rows dfp)) \<rparr>), []))"
  using actor_parts_raises [of c a p e] actor_parts_success [of c a p dfp dfs] by blast

text \<open>
  The theorem at a client that raises \<^verbatim>\<open>AttributeError\<close>, at one that raises
  \<^verbatim>\<open>KeyError\<close>, and at one that returns two parts of \<open>CA\<close> and a search result with
  \<open>CA\<close> itself.
\<close>

theorem actor_parts_not_found_witness:
  "actor_parts
     \<lparr> jupyter = Inr (), emissions = (\<lambda>a d. Inl ValueError),
       parts = (\<lambda>a p. Inl AttributeError), search = (\<lambda>q. Inl AttributeError),
       targets = (\<lambda>a. Inl AttributeError) \<rparr> ''XX'' ''adm1''
     = (Inr None, [''ERROR: XX not found'']) \<and>
   actor_parts
     \<lparr> jupyter = Inr (), emissions = (\<lambda>a d. Inl ValueError),
       parts = (\<lambda>a p. Inl KeyError), search = (\<lambda>q. Inl AttributeError),
       targets = (\<lambda>a. Inl AttributeError) \<rparr> ''CA'' ''adm3''
     = (Inr None, [''CA does not have any adm3 types'']) \<and>
   actor_parts
     \<lparr> jupyter = Inr (), emissions = (\<lambda>a d. Inl ValueError),
       parts = (\<lambda>a p. Inr \<lparr> columns = [''actor_id'', ''name'', ''type''],
                              rows = [(7, [Str ''CA-ON'', Str ''Ontario'', Str p]),
                                      (9, [Str ''CA-QC'', Str ''Quebec'', Str p])] \<rparr>),
       search = (\<lambda>q. Inr \<lparr> columns = [''actor_id'', ''name'', ''type''],
                            rows = [(0, [Str ''CA'', Str ''Canada'', Str ''country'']),
                                    (1, [Str ''CA-ON'', Str ''Ontario'', Str ''adm1''])] \<rparr>),
       targets = (\<lambda>a. Inl AttributeError) \<rparr> ''CA'' ''adm1''
     = (Inr (Some \<lparr> columns = [''name'', ''actor_id''],
                    rows = [(0, [Str ''Canada'', Str ''CA'']),
                            (0, [Str ''Ontario'', Str ''CA-ON'']),
                            (1, [Str ''Quebec'', Str ''CA-QC''])] \<rparr>), [])"
proof -
  let ?c1 = "\<lparr> jupyter = Inr (), emissions = (\<lambda>a d. Inl ValueError),
       parts = (\<lambda>a p. Inl AttributeError), search = (\<lambda>q. Inl AttributeError),
       targets = (\<lambda>a. Inl AttributeError) \<rparr>"
  let ?c2 = "\<lparr> jupyter = Inr (), emissions = (\<lambda>a d. Inl ValueError),
       parts = (\<lambda>a p. Inl KeyError), search = (\<lambda>q. Inl AttributeError),
       targets = (\<lambda>a. Inl AttributeError) \<rparr>"
  let ?dfp = "\<lambda>p. \<lparr> columns = [''actor_id'', ''name'', ''type''],
                              rows = [(7, [Str ''CA-ON'', Str ''Ontario'', Str p]),
                                      (9, [Str ''CA-QC'', Str ''Quebec'', Str p])] \<rparr>"
  let ?dfs = "\<lparr> columns = [''actor_id'', ''name'', ''type''],
                            rows = [(0, [Str ''CA'', Str ''Canada'', Str ''country'']),
                                    (1, [Str ''CA-ON'', Str ''Ontario'', Str ''adm1''])] \<rparr>"
  let ?c3 = "\<lparr> jupyter = Inr (), emissions = (\<lambda>a d. Inl ValueError),
       parts = (\<lambda>a p. Inr (?dfp p)), search = (\<lambda>q. Inr ?dfs),
       targets = (\<lambda>a. Inl AttributeError) \<rparr>"
  have "actor_parts ?c1 ''XX'' ''adm1'' = (Inr None, [''ERROR: XX not found''])"
    using actor_parts_not_found [of ?c1 "''XX''" "''adm1''" AttributeError] by simp
  moreover have "actor_parts ?c2 ''CA'' ''adm3'' = (Inr None, [''CA does not have any adm3 types''])"
    using actor_parts_not_found [of ?c2 "''CA''" "''adm3''" KeyError] by simp
  moreover have "actor_parts ?c3 ''CA'' ''adm1''
     = (Inr (Some \<lparr> columns = [''name'', ''actor_id''],
                    rows = [(0, [Str ''Canada'', Str ''CA'']),
                            (0, [Str ''Ontario'', Str ''CA-ON'']),
                            (1, [Str ''Quebec'', Str ''CA-QC''])] \<rparr>), [])"
    using actor_parts_not_found [of ?c3 "''CA''" "''adm1''" _ "?dfp ''adm1''" ?dfs]
    by (simp add: get_col_def upt_rec)
  ultimately show ?thesis by blast
qed

end
